theory Spec2Isabelle
  imports Main "HOL-Library.Word"
begin

section \<open>Go strings\<close>

text \<open>
  A Go string is a sequence of bytes; \<open>len\<close> counts bytes and indexing yields bytes.
  An Isabelle \<open>char\<close> is a byte, so \<open>string\<close> models the Go type directly and
  \<open>length\<close> is Go's \<open>len\<close>.  Text outside ASCII is written as its UTF-8 bytes,
  the way the Go compiler stores the literals of the source files.
\<close>

definition NL :: string where
  "NL = [CHR 0x0A]"

definition bullet :: string where \<comment> \<open>U+2022\<close>
  "bullet = [CHR 0xE2, CHR 0x80, CHR 0xA2]"

definition arrow :: string where \<comment> \<open>U+2192\<close>
  "arrow = [CHR 0xE2, CHR 0x86, CHR 0x92]"

definition emoji_siren :: string where \<comment> \<open>U+1F6A8\<close>
  "emoji_siren = [CHR 0xF0, CHR 0x9F, CHR 0x9A, CHR 0xA8]"

definition emoji_check :: string where \<comment> \<open>U+2705\<close>
  "emoji_check = [CHR 0xE2, CHR 0x9C, CHR 0x85]"

definition emoji_cross :: string where \<comment> \<open>U+274C\<close>
  "emoji_cross = [CHR 0xE2, CHR 0x9D, CHR 0x8C]"

definition emoji_warning :: string where \<comment> \<open>U+26A0 U+FE0F\<close>
  "emoji_warning = [CHR 0xE2, CHR 0x9A, CHR 0xA0, CHR 0xEF, CHR 0xB8, CHR 0x8F]"

definition emoji_chart :: string where \<comment> \<open>U+1F4CA\<close>
  "emoji_chart = [CHR 0xF0, CHR 0x9F, CHR 0x93, CHR 0x8A]"

definition emoji_hourglass :: string where \<comment> \<open>U+23F3\<close>
  "emoji_hourglass = [CHR 0xE2, CHR 0x8F, CHR 0xB3]"

definition emoji_red :: string where \<comment> \<open>U+1F534\<close>
  "emoji_red = [CHR 0xF0, CHR 0x9F, CHR 0x94, CHR 0xB4]"

definition emoji_green :: string where \<comment> \<open>U+1F7E2\<close>
  "emoji_green = [CHR 0xF0, CHR 0x9F, CHR 0x9F, CHR 0xA2]"

definition emoji_yellow :: string where \<comment> \<open>U+1F7E1\<close>
  "emoji_yellow = [CHR 0xF0, CHR 0x9F, CHR 0x9F, CHR 0xA1]"

definition emoji_heavy_x :: string where \<comment> \<open>U+2716 U+FE0F\<close>
  "emoji_heavy_x = [CHR 0xE2, CHR 0x9C, CHR 0x96, CHR 0xEF, CHR 0xB8, CHR 0x8F]"

definition byte :: "char \<Rightarrow> nat" where
  "byte c = of_char c"

text \<open>
  The specification speaks of the character length of a text.  \<open>character_length\<close>
  follows those words, for comparison with \<open>len\<close>: the number of code points of a UTF-8
  text, one for every byte that is not a continuation byte \<open>10xxxxxx\<close>.
\<close>

definition character_length :: "string \<Rightarrow> nat" where
  "character_length s = length (filter (\<lambda>c. \<not> (0x80 \<le> byte c \<and> byte c < 0xC0)) s)"

text \<open>\<open>strings.HasPrefix\<close> and \<open>strings.Contains\<close>.\<close>

definition HasPrefix :: "string \<Rightarrow> string \<Rightarrow> bool" where
  "HasPrefix s p = (take (length p) s = p)"

fun Contains :: "string \<Rightarrow> string \<Rightarrow> bool" where
  "Contains [] sub = (sub = [])"
| "Contains (c # cs) sub = (HasPrefix (c # cs) sub \<or> Contains cs sub)"

text \<open>\<open>strings.Join\<close>.\<close>

fun Join :: "string list \<Rightarrow> string \<Rightarrow> string" where
  "Join [] sep = []"
| "Join [x] sep = x"
| "Join (x # y # ys) sep = x @ sep @ Join (y # ys) sep"

text \<open>The verb \<open>%d\<close> of \<open>fmt.Sprintf\<close>: the decimal digits, with a minus sign below zero.\<close>

fun decimal :: "nat \<Rightarrow> string" where
  "decimal n = (if n < 10 then [''0123456789'' ! n] else decimal (n div 10) @ [''0123456789'' ! (n mod 10)])"

declare decimal.simps [simp del]

definition Sprintf_d :: "int \<Rightarrow> string" where
  "Sprintf_d i = (if i < 0 then CHR ''-'' # decimal (nat (- i)) else decimal (nat i))"


section \<open>The standard library\<close>

text \<open>
  The program calls into Go's standard library.  What can be written down exactly is
  defined in this theory.  The rest is collected in one record whose fields stand for the
  library functions, so that every result below holds for whatever these functions
  compute:
  \<^item> \<open>unicode_ToLower\<close>, \<open>unicode_ToUpper\<close>: \<open>strings.Map(unicode.ToLower, s)\<close> and its
    upper-case twin, which \<open>strings.ToLower\<close> and \<open>strings.ToUpper\<close> fall back to for a
    string with a byte outside ASCII (the Unicode case tables);
  \<^item> \<open>ParseFloat\<close>: \<open>strconv.ParseFloat(s, 64)\<close> on a JSON number literal, \<open>None\<close> for a
    value out of range; \<open>float64_zero\<close>: the zero value; \<open>Sprintf_f n\<close>: the verb
    \<open>%.nf\<close>; \<open>float64_is_int64\<close>: the test \<open>x == float64(int64(x))\<close>;
  \<^item> \<open>time_Parse\<close> and \<open>time_Format\<close>, each given its layout;
  \<^item> \<open>hmac_sha256\<close>: the HMAC-SHA256 of a message under a key, as 32 bytes.
  \<open>'f\<close> is the type \<open>float64\<close> and \<open>'t\<close> the type \<open>time.Time\<close>.
\<close>

record ('f, 't) stdlib =
  unicode_ToLower :: "string \<Rightarrow> string"
  unicode_ToUpper :: "string \<Rightarrow> string"
  ParseFloat :: "string \<Rightarrow> 'f option"
  float64_zero :: 'f
  Sprintf_f :: "nat \<Rightarrow> 'f \<Rightarrow> string"
  float64_is_int64 :: "'f \<Rightarrow> bool"
  time_Parse :: "string \<Rightarrow> string \<Rightarrow> 't option"
  time_Format :: "'t \<Rightarrow> string \<Rightarrow> string"
  hmac_sha256 :: "string \<Rightarrow> string \<Rightarrow> string"

text \<open>
  \<open>strings.ToLower\<close> and \<open>strings.ToUpper\<close>: a string of ASCII bytes is mapped byte by
  byte; any other string goes through the Unicode tables.
\<close>

definition is_ascii :: "string \<Rightarrow> bool" where
  "is_ascii s = list_all (\<lambda>c. byte c < 128) s"

definition ascii_lower :: "char \<Rightarrow> char" where
  "ascii_lower c =
     (case map_of (zip ''ABCDEFGHIJKLMNOPQRSTUVWXYZ'' ''abcdefghijklmnopqrstuvwxyz'') c of
        Some d \<Rightarrow> d | None \<Rightarrow> c)"

definition ascii_upper :: "char \<Rightarrow> char" where
  "ascii_upper c =
     (case map_of (zip ''abcdefghijklmnopqrstuvwxyz'' ''ABCDEFGHIJKLMNOPQRSTUVWXYZ'') c of
        Some d \<Rightarrow> d | None \<Rightarrow> c)"

definition ToLower :: "('f, 't) stdlib \<Rightarrow> string \<Rightarrow> string" where
  "ToLower L s = (if is_ascii s then map ascii_lower s else unicode_ToLower L s)"

definition ToUpper :: "('f, 't) stdlib \<Rightarrow> string \<Rightarrow> string" where
  "ToUpper L s = (if is_ascii s then map ascii_upper s else unicode_ToUpper L s)"

text \<open>
  \<open>strings.TrimSpace\<close> removes the white space of Unicode from both ends.  The white
  space characters are listed with their UTF-8 encodings; a leading one is found by
  decoding forwards and a trailing one by decoding backwards, and since each encoding
  starts with a lead byte, both amount to matching the encodings' bytes.
\<close>

definition space_encodings :: "string list" where
  "space_encodings =
     [[CHR 0x09], [CHR 0x0A], [CHR 0x0B], [CHR 0x0C], [CHR 0x0D], [CHR 0x20],
      [CHR 0xC2, CHR 0x85], [CHR 0xC2, CHR 0xA0], [CHR 0xE1, CHR 0x9A, CHR 0x80],
      [CHR 0xE2, CHR 0x80, CHR 0x80], [CHR 0xE2, CHR 0x80, CHR 0x81], [CHR 0xE2, CHR 0x80, CHR 0x82],
      [CHR 0xE2, CHR 0x80, CHR 0x83], [CHR 0xE2, CHR 0x80, CHR 0x84], [CHR 0xE2, CHR 0x80, CHR 0x85],
      [CHR 0xE2, CHR 0x80, CHR 0x86], [CHR 0xE2, CHR 0x80, CHR 0x87], [CHR 0xE2, CHR 0x80, CHR 0x88],
      [CHR 0xE2, CHR 0x80, CHR 0x89], [CHR 0xE2, CHR 0x80, CHR 0x8A], [CHR 0xE2, CHR 0x80, CHR 0xA8],
      [CHR 0xE2, CHR 0x80, CHR 0xA9], [CHR 0xE2, CHR 0x80, CHR 0xAF], [CHR 0xE2, CHR 0x81, CHR 0x9F],
      [CHR 0xE3, CHR 0x80, CHR 0x80]]"

fun strip_one :: "string list \<Rightarrow> string \<Rightarrow> string option" where
  "strip_one [] s = None"
| "strip_one (e # es) s = (if e \<noteq> [] \<and> HasPrefix s e then Some (drop (length e) s) else strip_one es s)"

lemma strip_one_shorter: "strip_one es s = Some r \<Longrightarrow> length r < length s"
proof (induction es)
  case Nil
  then show ?case by simp
next
  case (Cons e es)
  show ?case
  proof (cases "e \<noteq> [] \<and> HasPrefix s e")
    case True
    with Cons.prems have r: "r = drop (length e) s" by simp
    from True have "s \<noteq> []" by (auto simp: HasPrefix_def)
    with True r show ?thesis by (cases e) auto
  next
    case False
    with Cons show ?thesis by auto
  qed
qed

function strip_all :: "string list \<Rightarrow> string \<Rightarrow> string" where
  "strip_all es s = (case strip_one es s of None \<Rightarrow> s | Some r \<Rightarrow> strip_all es r)"
  by pat_completeness auto
termination
  by (relation "measure (\<lambda>(es, s). length s)") (auto dest: strip_one_shorter)

declare strip_all.simps [simp del]

definition TrimSpace :: "string \<Rightarrow> string" where
  "TrimSpace s = rev (strip_all (map rev space_encodings) (rev (strip_all space_encodings s)))"

text \<open>\<open>hex.EncodeToString\<close>.\<close>

definition EncodeToString :: "string \<Rightarrow> string" where
  "EncodeToString bs =
     concat (map (\<lambda>c. [''0123456789abcdef'' ! (byte c div 16), ''0123456789abcdef'' ! (byte c mod 16)]) bs)"

text \<open>
  \<open>strconv.ParseInt(s, 10, 64)\<close>: an optional sign, then one or more decimal digits, and
  the value must fit \<open>int64\<close>; anything else is an error.
\<close>

definition is_digit :: "char \<Rightarrow> bool" where
  "is_digit c = (c \<in> set ''0123456789'')"

definition digits_value :: "string \<Rightarrow> nat" where
  "digits_value ds = foldl (\<lambda>a c. 10 * a + (of_char c - 48)) 0 ds"

definition ParseInt64 :: "string \<Rightarrow> int option" where
  "ParseInt64 s =
     (let (neg, ds) = (case s of
                         [] \<Rightarrow> (False, [])
                       | c # r \<Rightarrow> if c = CHR ''+'' then (False, r)
                                  else if c = CHR ''-'' then (True, r) else (False, s))
      in if ds = [] \<or> \<not> list_all is_digit ds then None
         else (let v = (if neg then - int (digits_value ds) else int (digits_value ds))
               in if - (2 ^ 63) \<le> v \<and> v < 2 ^ 63 then Some v else None))"


section \<open>encoding/json: the syntax\<close>

text \<open>
  \<open>json.Unmarshal\<close> first checks that its input is one JSON value with nothing but white
  space around it, and fails with a syntax error otherwise.  The model reads the text
  into a tree: a lexer that produces tokens, then a pushdown automaton over the tokens.
  Numbers keep their literal text.  A string has its escapes decoded, and bytes that are
  not valid UTF-8, like unpaired surrogate escapes, are replaced by U+FFFD, as
  Go's decoder does.  Objects keep their members in order, duplicates included.
\<close>

datatype json =
    JNull
  | JBool bool
  | JNumber string
  | JString string
  | JArray "json list"
  | JObject "(string \<times> json) list"

datatype token =
    TLBrace | TRBrace | TLBracket | TRBracket | TColon | TComma
  | TString string | TNumber string | TTrue | TFalse | TNull

definition is_hex :: "char \<Rightarrow> bool" where
  "is_hex c = (c \<in> set ''0123456789abcdefABCDEF'')"

definition hex_value :: "char \<Rightarrow> nat" where
  "hex_value c =
     (if is_digit c then byte c - 48
      else if c \<in> set ''abcdef'' then byte c - 87
      else byte c - 55)"

definition hex4 :: "string \<Rightarrow> nat" where
  "hex4 ds = foldl (\<lambda>a c. 16 * a + hex_value c) 0 ds"

text \<open>
  \<open>scan_string\<close> reads a string literal from behind its opening quote to its closing
  quote, checking the escapes; control characters are not allowed.
\<close>

fun scan_string :: "string \<Rightarrow> string \<Rightarrow> (string \<times> string) option" where
  "scan_string [] acc = None"
| "scan_string (c # cs) acc =
     (if c = CHR 0x22 then Some (rev acc, cs)
      else if c = CHR 0x5C then
        (case cs of
           [] \<Rightarrow> None
         | e # r \<Rightarrow>
             if e \<in> {CHR 0x22, CHR 0x5C, CHR ''/'', CHR ''b'', CHR ''f'', CHR ''n'', CHR ''r'', CHR ''t''}
             then scan_string r (e # c # acc)
             else if e = CHR ''u'' \<and> 4 \<le> length r \<and> list_all is_hex (take 4 r)
             then scan_string (drop 4 r) (rev (take 4 r) @ e # c # acc)
             else None)
      else if byte c < 0x20 then None
      else scan_string cs (c # acc))"

text \<open>
  The length of the UTF-8 sequence at the head of a string, 0 when the bytes there are no
  valid encoding.
\<close>

definition cont :: "char \<Rightarrow> bool" where
  "cont c = (0x80 \<le> byte c \<and> byte c \<le> 0xBF)"

definition rune_len :: "string \<Rightarrow> nat" where
  "rune_len s =
     (case s of
        [] \<Rightarrow> 0
      | b0 # r \<Rightarrow>
          (let n = byte b0 in
           if n < 0x80 then 1
           else if 0xC2 \<le> n \<and> n \<le> 0xDF then
             (case r of b1 # _ \<Rightarrow> if cont b1 then 2 else 0 | _ \<Rightarrow> 0)
           else if 0xE0 \<le> n \<and> n \<le> 0xEF then
             (case r of b1 # b2 # _ \<Rightarrow>
                if (if n = 0xE0 then 0xA0 \<le> byte b1 \<and> byte b1 \<le> 0xBF
                    else if n = 0xED then 0x80 \<le> byte b1 \<and> byte b1 \<le> 0x9F
                    else cont b1) \<and> cont b2 then 3 else 0
              | _ \<Rightarrow> 0)
           else if 0xF0 \<le> n \<and> n \<le> 0xF4 then
             (case r of b1 # b2 # b3 # _ \<Rightarrow>
                if (if n = 0xF0 then 0x90 \<le> byte b1 \<and> byte b1 \<le> 0xBF
                    else if n = 0xF4 then 0x80 \<le> byte b1 \<and> byte b1 \<le> 0x8F
                    else cont b1) \<and> cont b2 \<and> cont b3 then 4 else 0
              | _ \<Rightarrow> 0)
           else 0))"

definition replacement :: string where
  "replacement = [CHR 0xEF, CHR 0xBF, CHR 0xBD]"

definition encode_rune :: "nat \<Rightarrow> string" where
  "encode_rune n =
     (if n < 0x80 then [char_of n]
      else if n < 0x800 then [char_of (0xC0 + n div 64), char_of (0x80 + n mod 64)]
      else if 0xD800 \<le> n \<and> n \<le> 0xDFFF then replacement
      else if n < 0x10000 then
        [char_of (0xE0 + n div 4096), char_of (0x80 + n div 64 mod 64), char_of (0x80 + n mod 64)]
      else if n < 0x110000 then
        [char_of (0xF0 + n div 262144), char_of (0x80 + n div 4096 mod 64),
         char_of (0x80 + n div 64 mod 64), char_of (0x80 + n mod 64)]
      else replacement)"

definition escape_char :: "char \<Rightarrow> char" where
  "escape_char e =
     (if e = CHR ''b'' then CHR 0x08 else if e = CHR ''f'' then CHR 0x0C
      else if e = CHR ''n'' then CHR 0x0A else if e = CHR ''r'' then CHR 0x0D
      else if e = CHR ''t'' then CHR 0x09 else e)"

fun unquote :: "string \<Rightarrow> string" where
  "unquote [] = []"
| "unquote (c # cs) =
     (if c = CHR 0x5C then
        (case cs of
           [] \<Rightarrow> []
         | e # r \<Rightarrow>
             if e = CHR ''u'' then
               (let rr = hex4 (take 4 r); r1 = drop 4 r in
                if 0xD800 \<le> rr \<and> rr \<le> 0xDFFF then
                  (if rr < 0xDC00 \<and> HasPrefix r1 [CHR 0x5C, CHR ''u''] \<and> 6 \<le> length r1
                      \<and> list_all is_hex (take 4 (drop 2 r1))
                      \<and> 0xDC00 \<le> hex4 (take 4 (drop 2 r1)) \<and> hex4 (take 4 (drop 2 r1)) \<le> 0xDFFF
                   then encode_rune (0x10000 + (rr - 0xD800) * 1024 + (hex4 (take 4 (drop 2 r1)) - 0xDC00))
                        @ unquote (drop 6 r1)
                   else replacement @ unquote r1)
                else encode_rune rr @ unquote r1)
             else escape_char e # unquote r)
      else if byte c < 0x80 then c # unquote cs
      else (let n = rune_len (c # cs) in
            if n = 0 then replacement @ unquote cs
            else c # take (n - 1) cs @ unquote (drop (n - 1) cs)))"

definition is_numchar :: "char \<Rightarrow> bool" where
  "is_numchar c = (c \<in> set ''0123456789+-.eE'')"

text \<open>
  The grammar of a number: an optional minus, an integer part without a leading zero, an
  optional fraction, an optional exponent.  A number token is a maximal run of the
  characters numbers are made of.
\<close>

definition valid_number :: "string \<Rightarrow> bool" where
  "valid_number s =
     (let s1 = (case s of c # r \<Rightarrow> if c = CHR ''-'' then r else s | [] \<Rightarrow> s);
          ip = takeWhile is_digit s1; s2 = dropWhile is_digit s1;
          int_ok = (ip \<noteq> [] \<and> (hd ip = CHR ''0'' \<longrightarrow> length ip = 1));
          (frac_ok, s3) = (case s2 of
                             c # r \<Rightarrow> if c = CHR ''.'' then (takeWhile is_digit r \<noteq> [], dropWhile is_digit r)
                                        else (True, s2)
                           | [] \<Rightarrow> (True, s2));
          exp_ok = (case s3 of
                      [] \<Rightarrow> True
                    | c # r \<Rightarrow>
                        (c = CHR ''e'' \<or> c = CHR ''E'') \<and>
                        (let r1 = (case r of d # r' \<Rightarrow> if d = CHR ''+'' \<or> d = CHR ''-'' then r' else r | [] \<Rightarrow> r)
                         in r1 \<noteq> [] \<and> list_all is_digit r1))
      in int_ok \<and> frac_ok \<and> exp_ok)"

lemma scan_string_shorter: "scan_string cs acc = Some (s, rest) \<Longrightarrow> length rest < length cs"
proof (induction cs acc rule: scan_string.induct)
  case (1 acc)
  then show ?case by simp
next
  case (2 c cs acc)
  then show ?case
    by (auto split: if_splits list.splits)
qed

function lex :: "string \<Rightarrow> token list option" where
  "lex [] = Some []"
| "lex (c # cs) =
     (if c \<in> {CHR 0x20, CHR 0x09, CHR 0x0D, CHR 0x0A} then lex cs
      else if c = CHR ''{'' then map_option ((#) TLBrace) (lex cs)
      else if c = CHR ''}'' then map_option ((#) TRBrace) (lex cs)
      else if c = CHR ''['' then map_option ((#) TLBracket) (lex cs)
      else if c = CHR '']'' then map_option ((#) TRBracket) (lex cs)
      else if c = CHR '':'' then map_option ((#) TColon) (lex cs)
      else if c = CHR '','' then map_option ((#) TComma) (lex cs)
      else if c = CHR 0x22 then
        (case scan_string cs [] of
           None \<Rightarrow> None
         | Some (raw, rest) \<Rightarrow> map_option ((#) (TString (unquote raw))) (lex rest))
      else if is_numchar c then
        (let lit = takeWhile is_numchar (c # cs)
         in if valid_number lit
            then map_option ((#) (TNumber lit)) (lex (dropWhile is_numchar cs))
            else None)
      else if HasPrefix (c # cs) ''true'' then map_option ((#) TTrue) (lex (drop 3 cs))
      else if HasPrefix (c # cs) ''false'' then map_option ((#) TFalse) (lex (drop 4 cs))
      else if HasPrefix (c # cs) ''null'' then map_option ((#) TNull) (lex (drop 3 cs))
      else None)"
  by pat_completeness auto
termination
  by (relation "measure length")
     (auto dest: scan_string_shorter simp: length_dropWhile_le less_Suc_eq_le)

declare lex.simps [simp del]

text \<open>
  The automaton.  Its stack holds the arrays and objects that are still open, each with
  the members read so far in reverse; nesting stops at depth 10000.
\<close>

datatype frame =
    FArr "json list"
  | FObj "(string \<times> json) list" "string option"

datatype mode = MValue | MArrStart | MObjStart | MObjKey | MColon | MAfter | MDone json

definition maxNestingDepth :: nat where
  "maxNestingDepth = 10000"

definition complete :: "json \<Rightarrow> frame list \<Rightarrow> (mode \<times> frame list) option" where
  "complete v stack =
     (case stack of
        [] \<Rightarrow> Some (MDone v, [])
      | FArr acc # st \<Rightarrow> Some (MAfter, FArr (v # acc) # st)
      | FObj acc (Some k) # st \<Rightarrow> Some (MAfter, FObj ((k, v) # acc) None # st)
      | FObj acc None # st \<Rightarrow> None)"

definition begin_value :: "token \<Rightarrow> frame list \<Rightarrow> (mode \<times> frame list) option" where
  "begin_value t stack =
     (case t of
        TString s \<Rightarrow> complete (JString s) stack
      | TNumber n \<Rightarrow> complete (JNumber n) stack
      | TTrue \<Rightarrow> complete (JBool True) stack
      | TFalse \<Rightarrow> complete (JBool False) stack
      | TNull \<Rightarrow> complete JNull stack
      | TLBracket \<Rightarrow> if length stack < maxNestingDepth then Some (MArrStart, FArr [] # stack) else None
      | TLBrace \<Rightarrow> if length stack < maxNestingDepth then Some (MObjStart, FObj [] None # stack) else None
      | _ \<Rightarrow> None)"

definition step :: "mode \<Rightarrow> frame list \<Rightarrow> token \<Rightarrow> (mode \<times> frame list) option" where
  "step m stack t =
     (case m of
        MValue \<Rightarrow> begin_value t stack
      | MArrStart \<Rightarrow>
          (case (t, stack) of
             (TRBracket, FArr acc # st) \<Rightarrow> complete (JArray (rev acc)) st
           | _ \<Rightarrow> begin_value t stack)
      | MObjStart \<Rightarrow>
          (case (t, stack) of
             (TRBrace, FObj acc None # st) \<Rightarrow> complete (JObject (rev acc)) st
           | (TString k, FObj acc None # st) \<Rightarrow> Some (MColon, FObj acc (Some k) # st)
           | _ \<Rightarrow> None)
      | MObjKey \<Rightarrow>
          (case (t, stack) of
             (TString k, FObj acc None # st) \<Rightarrow> Some (MColon, FObj acc (Some k) # st)
           | _ \<Rightarrow> None)
      | MColon \<Rightarrow> (case t of TColon \<Rightarrow> Some (MValue, stack) | _ \<Rightarrow> None)
      | MAfter \<Rightarrow>
          (case (t, stack) of
             (TComma, FArr acc # st) \<Rightarrow> Some (MValue, stack)
           | (TComma, FObj acc None # st) \<Rightarrow> Some (MObjKey, stack)
           | (TRBracket, FArr acc # st) \<Rightarrow> complete (JArray (rev acc)) st
           | (TRBrace, FObj acc None # st) \<Rightarrow> complete (JObject (rev acc)) st
           | _ \<Rightarrow> None)
      | MDone v \<Rightarrow> None)"

fun run :: "mode \<Rightarrow> frame list \<Rightarrow> token list \<Rightarrow> json option" where
  "run m stack [] = (case m of MDone v \<Rightarrow> Some v | _ \<Rightarrow> None)"
| "run m stack (t # ts) =
     (case step m stack t of None \<Rightarrow> None | Some (m', stack') \<Rightarrow> run m' stack' ts)"

definition parse_json :: "string \<Rightarrow> json option" where
  "parse_json data = (case lex data of None \<Rightarrow> None | Some ts \<Rightarrow> run MValue [] ts)"


section \<open>encoding/json: decoding into Go values\<close>

text \<open>
  After the syntax check \<open>json.Unmarshal\<close> stores the value into its target, guided by
  the target's type (the decoder of Go 1.22, the version the repository's Dockerfile builds with).  A
  decoder is modelled as a function from the JSON value and the target's present content
  to its new content, \<open>None\<close> when the JSON value does not fit the type: the decoder then
  records an \<open>UnmarshalTypeError\<close> and \<open>Unmarshal\<close> returns it.  The present content
  matters because \<open>null\<close> leaves a string, a number or a struct as it is, and because a
  member that occurs twice is decoded twice into the same target.
\<close>

datatype json_error = SyntaxError | UnmarshalTypeError

definition Unmarshal :: "(json \<Rightarrow> 'a \<Rightarrow> 'a option) \<Rightarrow> string \<Rightarrow> 'a \<Rightarrow> json_error + 'a" where
  "Unmarshal dec data v =
     (case parse_json data of
        None \<Rightarrow> Inl SyntaxError
      | Some j \<Rightarrow> (case dec j v of None \<Rightarrow> Inl UnmarshalTypeError | Some v' \<Rightarrow> Inr v'))"

definition dec_string :: "json \<Rightarrow> string \<Rightarrow> string option" where
  "dec_string j old = (case j of JString s \<Rightarrow> Some s | JNull \<Rightarrow> Some old | _ \<Rightarrow> None)"

text \<open>\<open>int\<close> and \<open>int64\<close> (the program is built for a 64-bit platform): the literal must be an integer in range.\<close>

definition dec_int64 :: "json \<Rightarrow> int \<Rightarrow> int option" where
  "dec_int64 j old = (case j of JNumber lit \<Rightarrow> ParseInt64 lit | JNull \<Rightarrow> Some old | _ \<Rightarrow> None)"

definition dec_float64 :: "('f, 't) stdlib \<Rightarrow> json \<Rightarrow> 'f \<Rightarrow> 'f option" where
  "dec_float64 L j old = (case j of JNumber lit \<Rightarrow> ParseFloat L lit | JNull \<Rightarrow> Some old | _ \<Rightarrow> None)"

text \<open>\<open>*string\<close>: \<open>null\<close> sets the pointer to nil.\<close>

definition dec_ptr_string :: "json \<Rightarrow> string option \<Rightarrow> string option option" where
  "dec_ptr_string j old = (case j of JString s \<Rightarrow> Some (Some s) | JNull \<Rightarrow> Some None | _ \<Rightarrow> None)"

text \<open>
  A Go map with string keys is modelled by the list of its entries, the keys distinct.
  Indexing a missing key gives the zero value.  A nil map behaves like an empty one in
  every use the program makes of it, so both are the empty list.  The order of the list
  means nothing: a \<open>range\<close> loop visits the entries in an order the runtime picks, see
  below.
\<close>

type_synonym 'v gomap = "(string \<times> 'v) list"

definition map_put :: "string \<Rightarrow> 'v \<Rightarrow> 'v gomap \<Rightarrow> 'v gomap" where
  "map_put k v m = (if k \<in> fst ` set m then map (\<lambda>(k', v'). if k' = k then (k', v) else (k', v')) m
                    else m @ [(k, v)])"

definition index_string :: "string gomap \<Rightarrow> string \<Rightarrow> string" where
  "index_string m k = (case map_of m k of None \<Rightarrow> [] | Some v \<Rightarrow> v)"

text \<open>\<open>map[string]string\<close>: each member's value is decoded into a fresh string and stored.\<close>

fun dec_members_string :: "(string \<times> json) list \<Rightarrow> string gomap \<Rightarrow> string gomap option" where
  "dec_members_string [] m = Some m"
| "dec_members_string ((k, v) # kvs) m =
     (case dec_string v [] of None \<Rightarrow> None | Some s \<Rightarrow> dec_members_string kvs (map_put k s m))"

definition dec_map_string :: "json \<Rightarrow> string gomap \<Rightarrow> string gomap option" where
  "dec_map_string j old =
     (case j of JObject kvs \<Rightarrow> dec_members_string kvs old | JNull \<Rightarrow> Some [] | _ \<Rightarrow> None)"

text \<open>
  A slice is modelled by its elements together with the elements left in its backing
  array beyond its length: decoding an array into a slice reuses the backing array, so an
  element may be decoded on top of what an earlier, longer array left there.
\<close>

type_synonym 'a slice = "'a list \<times> 'a list"

fun dec_elems :: "(json \<Rightarrow> 'a \<Rightarrow> 'a option) \<Rightarrow> 'a \<Rightarrow> json list \<Rightarrow> 'a list \<Rightarrow> 'a list option" where
  "dec_elems dec zero [] backing = Some []"
| "dec_elems dec zero (j # js) backing =
     (case dec j (case backing of [] \<Rightarrow> zero | b # _ \<Rightarrow> b) of
        None \<Rightarrow> None
      | Some x \<Rightarrow> map_option ((#) x) (dec_elems dec zero js (tl backing)))"

definition dec_slice :: "(json \<Rightarrow> 'a \<Rightarrow> 'a option) \<Rightarrow> 'a \<Rightarrow> json \<Rightarrow> 'a slice \<Rightarrow> 'a slice option" where
  "dec_slice dec zero j old =
     (case j of
        JArray js \<Rightarrow>
          (case dec_elems dec zero js (fst old @ snd old) of
             None \<Rightarrow> None
           | Some xs \<Rightarrow> Some (if js = [] then ([], []) else (xs, drop (length js) (fst old @ snd old))))
      | JNull \<Rightarrow> Some ([], [])
      | _ \<Rightarrow> None)"

text \<open>
  \<open>interface{}\<close>: any JSON value fits.  A number becomes a \<open>float64\<close> and must be in
  range; an object becomes a fresh map, in which a later member replaces an earlier one
  of the same key.
\<close>

datatype 'f iface =
    INil
  | IBool bool
  | IFloat 'f
  | IString string
  | ISlice "'f iface list"
  | IMap "(string \<times> 'f iface) list"

fun dec_iface :: "('f, 't) stdlib \<Rightarrow> json \<Rightarrow> 'f iface option"
  and dec_iface_list :: "('f, 't) stdlib \<Rightarrow> json list \<Rightarrow> 'f iface list option"
  and dec_iface_members ::
    "('f, 't) stdlib \<Rightarrow> (string \<times> json) list \<Rightarrow> 'f iface gomap \<Rightarrow> 'f iface gomap option" where
  "dec_iface L JNull = Some INil"
| "dec_iface L (JBool b) = Some (IBool b)"
| "dec_iface L (JNumber lit) = map_option IFloat (ParseFloat L lit)"
| "dec_iface L (JString s) = Some (IString s)"
| "dec_iface L (JArray js) = map_option ISlice (dec_iface_list L js)"
| "dec_iface L (JObject kvs) = map_option IMap (dec_iface_members L kvs [])"
| "dec_iface_list L [] = Some []"
| "dec_iface_list L (j # js) =
     (case dec_iface L j of None \<Rightarrow> None | Some v \<Rightarrow> map_option ((#) v) (dec_iface_list L js))"
| "dec_iface_members L [] m = Some m"
| "dec_iface_members L ((k, v) # kvs) m =
     (case dec_iface L v of None \<Rightarrow> None | Some x \<Rightarrow> dec_iface_members L kvs (map_put k x m))"

text \<open>\<open>map[string]interface{}\<close>: the members are stored into the map that is there.\<close>

definition dec_map_iface :: "('f, 't) stdlib \<Rightarrow> json \<Rightarrow> 'f iface gomap \<Rightarrow> 'f iface gomap option" where
  "dec_map_iface L j old =
     (case j of JObject kvs \<Rightarrow> dec_iface_members L kvs old | JNull \<Rightarrow> Some [] | _ \<Rightarrow> None)"

text \<open>
  A struct: each member of the object is decoded into the field whose JSON name equals
  the key, or else equals it under case folding; a member that names no field is skipped.
  Folding maps a letter to its upper case, and the two characters outside ASCII that fold
  to an ASCII letter with it: U+017F to \<open>S\<close> and U+212A to \<open>K\<close>.  The field names of
  this program are ASCII, so no other character can take part in a match.
\<close>

fun foldName :: "string \<Rightarrow> string" where
  "foldName [] = []"
| "foldName (c # cs) =
     (if c = CHR 0xC5 \<and> HasPrefix cs [CHR 0xBF] then CHR ''S'' # foldName (drop 1 cs)
      else if c = CHR 0xE2 \<and> HasPrefix cs [CHR 0x84, CHR 0xAA] then CHR ''K'' # foldName (drop 2 cs)
      else ascii_upper c # foldName cs)"

type_synonym 's field = "string \<times> (json \<Rightarrow> 's \<Rightarrow> 's option)"

definition find_field :: "'s field list \<Rightarrow> string \<Rightarrow> (json \<Rightarrow> 's \<Rightarrow> 's option) option" where
  "find_field flds key =
     (case find (\<lambda>f. fst f = key) flds of
        Some f \<Rightarrow> Some (snd f)
      | None \<Rightarrow> map_option snd (find (\<lambda>f. foldName (fst f) = foldName key) flds))"

fun dec_members :: "'s field list \<Rightarrow> (string \<times> json) list \<Rightarrow> 's \<Rightarrow> 's option" where
  "dec_members flds [] s = Some s"
| "dec_members flds ((k, v) # kvs) s =
     (case find_field flds k of
        None \<Rightarrow> dec_members flds kvs s
      | Some dec \<Rightarrow> (case dec v s of None \<Rightarrow> None | Some s' \<Rightarrow> dec_members flds kvs s'))"

definition dec_struct :: "'s field list \<Rightarrow> json \<Rightarrow> 's \<Rightarrow> 's option" where
  "dec_struct flds j s =
     (case j of JObject kvs \<Rightarrow> dec_members flds kvs s | JNull \<Rightarrow> Some s | _ \<Rightarrow> None)"

text \<open>A field's decoder, from how the field is read and written and its type's decoder.\<close>

definition struct_field :: "('s \<Rightarrow> 'a) \<Rightarrow> ('a \<Rightarrow> 's \<Rightarrow> 's) \<Rightarrow> (json \<Rightarrow> 'a \<Rightarrow> 'a option) \<Rightarrow> json \<Rightarrow> 's \<Rightarrow> 's option" where
  "struct_field get put dec j s = map_option (\<lambda>x. put x s) (dec j (get s))"

text \<open>
  The order in which a \<open>range\<close> loop visits a map is the runtime's choice, made anew for
  every loop.  It enters the model as an argument: the list the loop runs through, which
  must hold the map's entries, each once.
\<close>

definition enumerates :: "('k \<times> 'v) list \<Rightarrow> ('k \<times> 'v) list \<Rightarrow> bool" where
  "enumerates xs m = (distinct xs \<and> set xs = set m)"


section \<open>internal/server: the interactive callback\<close>

subsection \<open>verifySlackRequest\<close>

text \<open>
  \<open>http.Header\<close> maps a header name to its values; \<open>Get\<close> returns the first value, or
  the empty string when there is none.
\<close>

type_synonym Header = "string \<rightharpoonup> string list"

definition Header_Get :: "Header \<Rightarrow> string \<Rightarrow> string" where
  "Header_Get h key = (case h key of None \<Rightarrow> [] | Some [] \<Rightarrow> [] | Some (v # vs) \<Rightarrow> v)"

text \<open>
  \<open>now\<close> is \<open>time.Now().Unix()\<close>, an \<open>int64\<close>.  The difference \<open>now - ts\<close> is computed
  in \<open>int64\<close> and wraps; it is compared as a signed number.
\<close>

definition verifySlackRequest ::
  "('f, 't) stdlib \<Rightarrow> string \<Rightarrow> 64 word \<Rightarrow> Header \<Rightarrow> string \<Rightarrow> bool" where
  "verifySlackRequest L signingSecret now header body =
     (let timestamp = Header_Get header ''X-Slack-Request-Timestamp'';
          signature = Header_Get header ''X-Slack-Signature''
      in if timestamp = [] \<or> signature = [] then False
         else (case ParseInt64 timestamp of
                 None \<Rightarrow> False
               | Some ts \<Rightarrow>
                   (let timeDiff = now - (word_of_int ts :: 64 word)
                    in if 300 < sint timeDiff then False
                       else (let baseString = ''v0:'' @ timestamp @ '':'' @ body;
                                 expectedSignature = ''v0='' @ EncodeToString (hmac_sha256 L signingSecret baseString)
                             in signature = expectedSignature))))"

subsection \<open>extractAlertInfo\<close>

text \<open>
  The four regular expressions of \<open>extractAlertInfo\<close> have one shape: a literal, then a
  group of one or more characters of a class.  \<open>FindStringSubmatch\<close> returns the leftmost
  match, and the group, being greedy, takes every character of the class that follows.
  The classes exclude only ASCII characters, so matching bytes is matching characters.
\<close>

fun FindSubmatch :: "string \<Rightarrow> (char \<Rightarrow> bool) \<Rightarrow> string \<Rightarrow> string option" where
  "FindSubmatch lit cls [] = None"
| "FindSubmatch lit cls (c # cs) =
     (if HasPrefix (c # cs) lit \<and> takeWhile cls (drop (length lit) (c # cs)) \<noteq> []
      then Some (takeWhile cls (drop (length lit) (c # cs)))
      else FindSubmatch lit cls cs)"

definition not_star_nl :: "char \<Rightarrow> bool" where \<comment> \<open>the class \<open>[^*\n]\<close>\<close>
  "not_star_nl c = (c \<noteq> CHR ''*'' \<and> c \<noteq> CHR 0x0A)"

definition not_nl :: "char \<Rightarrow> bool" where \<comment> \<open>the class \<open>[^\n]\<close>\<close>
  "not_nl c = (c \<noteq> CHR 0x0A)"

record AlertInfo =
  Name :: string
  Description :: string

definition extractAlertInfo :: "string \<Rightarrow> AlertInfo" where
  "extractAlertInfo text =
     (if Contains text ''Grafana Alert:'' then
        \<lparr>Name = (case FindSubmatch ''Grafana Alert: '' not_star_nl text of
                   Some m \<Rightarrow> TrimSpace m | None \<Rightarrow> []),
         Description = (case FindSubmatch (bullet @ '' *Description:* '') not_nl text of
                          Some m \<Rightarrow> TrimSpace m | None \<Rightarrow> [])\<rparr>
      else if Contains text ''CloudWatch Alarm:'' then
        \<lparr>Name = (case FindSubmatch ''CloudWatch Alarm: '' not_star_nl text of
                   Some m \<Rightarrow> TrimSpace m | None \<Rightarrow> []),
         Description = (case FindSubmatch (bullet @ '' *Reason:* '') not_nl text of
                          Some m \<Rightarrow> TrimSpace m | None \<Rightarrow> [])\<rparr>
      else \<lparr>Name = [], Description = []\<rparr>)"

subsection \<open>handleInteractive\<close>

text \<open>
  The part of \<open>handleInteractive\<close> that follows the decoding of the payload: from the
  decoded \<open>SlackPayload\<close> to the text that replaces the original message.  A payload
  without actions is answered with status 400 and no text.
\<close>

record SlackAction =
  ActionID :: string
  Value :: string

record SlackBlock =
  BlockType :: string
  BlockText :: string

record SlackPayload =
  PayloadType :: string
  Actions :: "SlackAction list"
  UserName :: string
  ResponseURL :: string
  MessageText :: string
  MessageBlocks :: "SlackBlock list"

text \<open>The fallback loop over the message's blocks, entered when the text gave no name.\<close>

fun extract_from_blocks :: "SlackBlock list \<Rightarrow> AlertInfo \<Rightarrow> AlertInfo" where
  "extract_from_blocks [] alertInfo = alertInfo"
| "extract_from_blocks (block # blocks) alertInfo =
     (if BlockType block = ''section''
      then (let alertInfo' = extractAlertInfo (BlockText block)
            in if Name alertInfo' \<noteq> [] then alertInfo' else extract_from_blocks blocks alertInfo')
      else extract_from_blocks blocks alertInfo)"

definition responseText :: "string \<Rightarrow> string \<Rightarrow> string \<Rightarrow> AlertInfo \<Rightarrow> string" where
  "responseText actionType alertID user alertInfo =
     (if actionType = ''acknowledge'' then
        (if Name alertInfo \<noteq> [] then
           emoji_check @ '' **Alert '' @ [CHR 0x27] @ Name alertInfo @ [CHR 0x27] @ '' acknowledged by '' @ user @ ''**''
           @ (if Description alertInfo \<noteq> [] then NL @ bullet @ '' *Description:* '' @ Description alertInfo else [])
           @ NL @ NL @ ''_This alert is now being handled._''
         else emoji_check @ '' **Alert '' @ alertID @ '' acknowledged by '' @ user @ ''**''
              @ NL @ NL @ ''_This alert is now being handled._'')
      else if actionType = ''dismiss'' then
        (if Name alertInfo \<noteq> [] then
           emoji_cross @ '' **Alert '' @ [CHR 0x27] @ Name alertInfo @ [CHR 0x27] @ '' dismissed by '' @ user @ ''**''
           @ (if Description alertInfo \<noteq> [] then NL @ bullet @ '' *Description:* '' @ Description alertInfo else [])
           @ NL @ NL @ ''_This alert has been dismissed and will not be actioned._''
         else emoji_cross @ '' **Alert '' @ alertID @ '' dismissed by '' @ user @ ''**''
              @ NL @ NL @ ''_This alert has been dismissed and will not be actioned._'')
      else ''Unknown action: '' @ actionType)"

datatype http_error = BadRequest string

definition handleInteractive_text :: "SlackPayload \<Rightarrow> http_error + string" where
  "handleInteractive_text slackPayload =
     (case Actions slackPayload of
        [] \<Rightarrow> Inl (BadRequest ''No actions found'')
      | action # _ \<Rightarrow>
          (let alertID = Value action;
               actionType = ActionID action;
               user = UserName slackPayload;
               alertInfo0 = extractAlertInfo (MessageText slackPayload);
               alertInfo = (if Name alertInfo0 = []
                            then extract_from_blocks (MessageBlocks slackPayload) alertInfo0
                            else alertInfo0)
           in Inr (responseText actionType alertID user alertInfo)))"


section \<open>notifier/slack\_notifier.go\<close>

text \<open>
  The notifier hands a message to the chat platform's client.  What the client is called
  with is the observable result, so the model builds that call's arguments: the channel,
  the header section, the action block with its two buttons, and the fallback text.
  \<open>PostMessage\<close> itself is the platform's; its outcome is an argument of the model.
\<close>

record SlackNotifier =
  channel :: string

record ButtonBlockElement =
  ButtonActionID :: string
  ButtonValue :: string
  ButtonText :: string
  ButtonStyle :: string

record SlackPost =
  PostChannel :: string
  HeaderText :: string
  BlockID :: string
  Elements :: "ButtonBlockElement list"
  FallbackText :: string

definition NotifyWithButtons_post :: "SlackNotifier \<Rightarrow> string \<Rightarrow> string \<Rightarrow> SlackPost" where
  "NotifyWithButtons_post s message alertID0 =
     (let alertID = (if alertID0 = [] then ''alert_'' @ Sprintf_d (int (length message)) else alertID0);
          acknowledgeBtn = \<lparr>ButtonActionID = ''acknowledge'', ButtonValue = alertID,
                            ButtonText = emoji_check @ '' Acknowledge'', ButtonStyle = ''primary''\<rparr>;
          dismissBtn = \<lparr>ButtonActionID = ''dismiss'', ButtonValue = alertID,
                        ButtonText = emoji_heavy_x @ '' Dismiss'', ButtonStyle = ''danger''\<rparr>
      in \<lparr>PostChannel = channel s,
          HeaderText = emoji_siren @ '' *Alert*'' @ NL @ message,
          BlockID = ''alert_actions'',
          Elements = [acknowledgeBtn, dismissBtn],
          FallbackText = message\<rparr>)"

text \<open>The error of \<open>PostMessage\<close>, if any, is returned unchanged.\<close>

definition NotifyWithButtons ::
  "(SlackPost \<Rightarrow> 'e option) \<Rightarrow> SlackNotifier \<Rightarrow> string \<Rightarrow> string \<Rightarrow> 'e option" where
  "NotifyWithButtons PostMessage s message alertID = PostMessage (NotifyWithButtons_post s message alertID)"

definition Notify_post :: "SlackNotifier \<Rightarrow> string \<Rightarrow> SlackPost" where
  "Notify_post s message = NotifyWithButtons_post s message []"

definition Notify :: "(SlackPost \<Rightarrow> 'e option) \<Rightarrow> SlackNotifier \<Rightarrow> string \<Rightarrow> 'e option" where
  "Notify PostMessage s message = NotifyWithButtons PostMessage s message []"


section \<open>internal/sqs/poller.go\<close>

text \<open>
  One round of \<open>Poll\<close>: a batch is received and its messages are handled in order.
  The handler and the queue's delete act on the outside world, which the model threads
  through as a state \<open>'w\<close>; every call made is appended to a trace.  \<open>Body\<close> and
  \<open>ReceiptHandle\<close> are pointers in the queue client's message type: dereferencing a
  nil \<open>Body\<close> panics, which ends the round.
\<close>

record SQSMessage =
  Body :: "string option"
  ReceiptHandle :: "string option"

datatype 'e event =
    HandlerCalled SQSMessage "'e option"
  | DeleteCalled SQSMessage

datatype outcome = Completed | Panicked

fun handle_messages ::
  "(string \<Rightarrow> 'w \<Rightarrow> 'e option \<times> 'w) \<Rightarrow> (string option \<Rightarrow> 'w \<Rightarrow> 'e option \<times> 'w) \<Rightarrow>
   SQSMessage list \<Rightarrow> 'w \<Rightarrow> 'e event list \<times> 'w \<times> outcome" where
  "handle_messages handler DeleteMessage [] w = ([], w, Completed)"
| "handle_messages handler DeleteMessage (msg # msgs) w =
     (case Body msg of
        None \<Rightarrow> ([], w, Panicked)
      | Some body \<Rightarrow>
          (case handler body w of
             (None, w1) \<Rightarrow>
               (let (derr, w2) = DeleteMessage (ReceiptHandle msg) w1;
                    (tr, w3, out) = handle_messages handler DeleteMessage msgs w2
                in (HandlerCalled msg None # DeleteCalled msg # tr, w3, out))
           | (Some err, w1) \<Rightarrow>
               (let (tr, w3, out) = handle_messages handler DeleteMessage msgs w1
                in (HandlerCalled msg (Some err) # tr, w3, out))))"

text \<open>
  A round starts with \<open>ReceiveMessage\<close>.  When it fails the round logs, sleeps and
  handles nothing.
\<close>

definition Poll_round ::
  "('w \<Rightarrow> ('e + SQSMessage list) \<times> 'w) \<Rightarrow> (string \<Rightarrow> 'w \<Rightarrow> 'e option \<times> 'w) \<Rightarrow>
   (string option \<Rightarrow> 'w \<Rightarrow> 'e option \<times> 'w) \<Rightarrow> 'w \<Rightarrow> 'e event list \<times> 'w \<times> outcome" where
  "Poll_round ReceiveMessage handler DeleteMessage w =
     (case ReceiveMessage w of
        (Inl err, w1) \<Rightarrow> ([], w1, Completed)
      | (Inr msgs, w1) \<Rightarrow> handle_messages handler DeleteMessage msgs w1)"

text \<open>The messages a trace deletes, those whose handler returned nil, and those handled at all.\<close>

fun deleted :: "'e event list \<Rightarrow> SQSMessage list" where
  "deleted [] = []"
| "deleted (DeleteCalled m # tr) = m # deleted tr"
| "deleted (HandlerCalled m r # tr) = deleted tr"

fun succeeded :: "'e event list \<Rightarrow> SQSMessage list" where
  "succeeded [] = []"
| "succeeded (HandlerCalled m None # tr) = m # succeeded tr"
| "succeeded (HandlerCalled m (Some e) # tr) = succeeded tr"
| "succeeded (DeleteCalled m # tr) = succeeded tr"

fun handled :: "'e event list \<Rightarrow> SQSMessage list" where
  "handled [] = []"
| "handled (HandlerCalled m r # tr) = m # handled tr"
| "handled (DeleteCalled m # tr) = handled tr"


text \<open>
  The shape the calls of a round must have: a handler call that returned nil is followed at
  once by the delete of that same message, and a handler call that returned an error is
  followed by no delete.  No delete stands anywhere else.
\<close>

fun paired :: "'e event list \<Rightarrow> bool" where
  "paired [] = True"
| "paired (HandlerCalled m None # DeleteCalled m' # tr) = (m = m' \<and> paired tr)"
| "paired (HandlerCalled m (Some e) # tr) =
     ((case tr of DeleteCalled m' # _ \<Rightarrow> False | _ \<Rightarrow> True) \<and> paired tr)"
| "paired _ = False"


text \<open>
  The trace above is written by the model of the loop.  To observe the calls themselves,
  the handler and the delete can be wrapped so that every call they receive writes itself,
  with its argument and result, into a log kept beside the world; \<open>ReceiveMessage\<close> is
  lifted to that world and leaves the log alone.  The loop runs on the wrapped functions
  like on any others.
\<close>

datatype 'e call =
    HandlerCall string "'e option"
  | DeleteCall "string option"

definition logged_handler ::
  "(string \<Rightarrow> 'w \<Rightarrow> 'e option \<times> 'w) \<Rightarrow> string \<Rightarrow> 'w \<times> 'e call list \<Rightarrow> 'e option \<times> ('w \<times> 'e call list)" where
  "logged_handler handler body wl =
     (case handler body (fst wl) of (r, w1) \<Rightarrow> (r, (w1, snd wl @ [HandlerCall body r])))"

definition logged_delete ::
  "(string option \<Rightarrow> 'w \<Rightarrow> 'e option \<times> 'w) \<Rightarrow> string option \<Rightarrow> 'w \<times> 'e call list \<Rightarrow> 'e option \<times> ('w \<times> 'e call list)" where
  "logged_delete DeleteMessage rh wl =
     (case DeleteMessage rh (fst wl) of (r, w1) \<Rightarrow> (r, (w1, snd wl @ [DeleteCall rh])))"

definition unlogged_receive ::
  "('w \<Rightarrow> ('e + SQSMessage list) \<times> 'w) \<Rightarrow> 'w \<times> 'e call list \<Rightarrow> ('e + SQSMessage list) \<times> ('w \<times> 'e call list)" where
  "unlogged_receive ReceiveMessage wl =
     (case ReceiveMessage (fst wl) of (r, w1) \<Rightarrow> (r, (w1, snd wl)))"

text \<open>The call an entry of the trace stands for.\<close>

fun call_of :: "'e event \<Rightarrow> 'e call" where
  "call_of (HandlerCalled m r) = HandlerCall (case Body m of Some body \<Rightarrow> body | None \<Rightarrow> []) r"
| "call_of (DeleteCalled m) = DeleteCall (ReceiptHandle m)"

text \<open>
  What the claim about deletes asks of the calls made for a list of messages: message by
  message and in order, one handler call on the body of the message; when it returned nil,
  one delete call with the receipt handle of that message right after it; when it returned
  an error, no delete call.  Nothing else is in the log.
\<close>

fun served :: "SQSMessage list \<Rightarrow> 'e call list \<Rightarrow> bool" where
  "served [] log = (log = [])"
| "served (m # ms) (HandlerCall body None # DeleteCall rh # log) =
     (Body m = Some body \<and> rh = ReceiptHandle m \<and> served ms log)"
| "served (m # ms) (HandlerCall body (Some e) # log) = (Body m = Some body \<and> served ms log)"
| "served (m # ms) log = False"


section \<open>internal/adapter: the payload types and their decoders\<close>

text \<open>
  The structs of the adapter, with the JSON names of their tags.  Where two structs of the
  program use one field name, the record fields carry a suffix: \<open>_d\<close> for a dimension,
  \<open>_m\<close> for an evaluation match, \<open>_g\<close> for the legacy webhook, \<open>_am\<close> for the
  Alertmanager webhook, \<open>_env\<close> for the queue envelope.
\<close>

record Dimension =
  Name_d :: string
  Value_d :: string

record 'f AlarmTrigger =
  MetricName :: string
  Namespace :: string
  Statistic :: string
  ComparisonOperator :: string
  Threshold :: 'f
  Period :: int
  EvaluationPeriods :: int
  Dimensions :: "Dimension slice"

record 'f CloudWatchAlarm =
  AlarmName :: string
  AlarmDescription :: "string option"
  AWSAccountId :: string
  NewStateValue :: string
  OldStateValue :: string
  NewStateReason :: string
  StateChangeTime :: string
  Region :: string
  AlarmArn :: string
  Trigger :: "'f AlarmTrigger"

record 'f EvalMatch =
  Value_m :: 'f
  Metric :: string
  Tags_m :: "string gomap"

record 'f GrafanaWebhook =
  DashboardID :: int
  EvalMatches :: "'f EvalMatch slice"
  ImageURL :: string
  Message_g :: string
  OrgID :: int
  PanelID :: int
  RuleID :: int
  RuleName :: string
  RuleURL :: string
  State :: string
  Tags :: "string gomap"
  Title_g :: string

record 'f AlertmanagerWebhook =
  Alerts :: "'f iface gomap slice"
  CommonLabels :: "string gomap"
  Status :: string
  Title_am :: string
  Message_am :: string

record Envelope =
  Message_env :: string
  Subject :: string

record AlertMessage =
  Message :: string
  Priority :: string
  Channel :: string

text \<open>The zero values \<open>var x T\<close> declares.\<close>

definition zero_Dimension :: Dimension where
  "zero_Dimension = \<lparr>Name_d = [], Value_d = []\<rparr>"

definition zero_AlarmTrigger :: "('f, 't) stdlib \<Rightarrow> 'f AlarmTrigger" where
  "zero_AlarmTrigger L =
     \<lparr>MetricName = [], Namespace = [], Statistic = [], ComparisonOperator = [],
      Threshold = float64_zero L, Period = 0, EvaluationPeriods = 0, Dimensions = ([], [])\<rparr>"

definition zero_CloudWatchAlarm :: "('f, 't) stdlib \<Rightarrow> 'f CloudWatchAlarm" where
  "zero_CloudWatchAlarm L =
     \<lparr>AlarmName = [], AlarmDescription = None, AWSAccountId = [], NewStateValue = [],
      OldStateValue = [], NewStateReason = [], StateChangeTime = [], Region = [], AlarmArn = [],
      Trigger = zero_AlarmTrigger L\<rparr>"

definition zero_EvalMatch :: "('f, 't) stdlib \<Rightarrow> 'f EvalMatch" where
  "zero_EvalMatch L = \<lparr>Value_m = float64_zero L, Metric = [], Tags_m = []\<rparr>"

definition zero_GrafanaWebhook :: "'f GrafanaWebhook" where
  "zero_GrafanaWebhook =
     \<lparr>DashboardID = 0, EvalMatches = ([], []), ImageURL = [], Message_g = [], OrgID = 0,
      PanelID = 0, RuleID = 0, RuleName = [], RuleURL = [], State = [], Tags = [], Title_g = []\<rparr>"

definition zero_AlertmanagerWebhook :: "'f AlertmanagerWebhook" where
  "zero_AlertmanagerWebhook =
     \<lparr>Alerts = ([], []), CommonLabels = [], Status = [], Title_am = [], Message_am = []\<rparr>"

definition zero_Envelope :: Envelope where
  "zero_Envelope = \<lparr>Message_env = [], Subject = []\<rparr>"

text \<open>The decoders, field by field.\<close>

definition Dimension_fields :: "Dimension field list" where
  "Dimension_fields =
       [(''name'', struct_field Name_d (\<lambda>x s. s\<lparr>Name_d := x\<rparr>) dec_string),
        (''value'', struct_field Value_d (\<lambda>x s. s\<lparr>Value_d := x\<rparr>) dec_string)]"

definition dec_Dimension :: "json \<Rightarrow> Dimension \<Rightarrow> Dimension option" where
  "dec_Dimension =
     dec_struct (Dimension_fields)"

definition AlarmTrigger_fields :: "('f, 't) stdlib \<Rightarrow> 'f AlarmTrigger field list" where
  "AlarmTrigger_fields L =
       [(''MetricName'', struct_field MetricName (\<lambda>x s. s\<lparr>MetricName := x\<rparr>) dec_string),
        (''Namespace'', struct_field Namespace (\<lambda>x s. s\<lparr>Namespace := x\<rparr>) dec_string),
        (''Statistic'', struct_field Statistic (\<lambda>x s. s\<lparr>Statistic := x\<rparr>) dec_string),
        (''ComparisonOperator'', struct_field ComparisonOperator (\<lambda>x s. s\<lparr>ComparisonOperator := x\<rparr>) dec_string),
        (''Threshold'', struct_field Threshold (\<lambda>x s. s\<lparr>Threshold := x\<rparr>) (dec_float64 L)),
        (''Period'', struct_field Period (\<lambda>x s. s\<lparr>Period := x\<rparr>) dec_int64),
        (''EvaluationPeriods'', struct_field EvaluationPeriods (\<lambda>x s. s\<lparr>EvaluationPeriods := x\<rparr>) dec_int64),
        (''Dimensions'', struct_field Dimensions (\<lambda>x s. s\<lparr>Dimensions := x\<rparr>)
                           (dec_slice dec_Dimension zero_Dimension))]"

definition dec_AlarmTrigger :: "('f, 't) stdlib \<Rightarrow> json \<Rightarrow> 'f AlarmTrigger \<Rightarrow> 'f AlarmTrigger option" where
  "dec_AlarmTrigger L =
     dec_struct (AlarmTrigger_fields L)"

definition CloudWatchAlarm_fields :: "('f, 't) stdlib \<Rightarrow> 'f CloudWatchAlarm field list" where
  "CloudWatchAlarm_fields L =
       [(''AlarmName'', struct_field AlarmName (\<lambda>x s. s\<lparr>AlarmName := x\<rparr>) dec_string),
        (''AlarmDescription'', struct_field AlarmDescription (\<lambda>x s. s\<lparr>AlarmDescription := x\<rparr>) dec_ptr_string),
        (''AWSAccountId'', struct_field AWSAccountId (\<lambda>x s. s\<lparr>AWSAccountId := x\<rparr>) dec_string),
        (''NewStateValue'', struct_field NewStateValue (\<lambda>x s. s\<lparr>NewStateValue := x\<rparr>) dec_string),
        (''OldStateValue'', struct_field OldStateValue (\<lambda>x s. s\<lparr>OldStateValue := x\<rparr>) dec_string),
        (''NewStateReason'', struct_field NewStateReason (\<lambda>x s. s\<lparr>NewStateReason := x\<rparr>) dec_string),
        (''StateChangeTime'', struct_field StateChangeTime (\<lambda>x s. s\<lparr>StateChangeTime := x\<rparr>) dec_string),
        (''Region'', struct_field Region (\<lambda>x s. s\<lparr>Region := x\<rparr>) dec_string),
        (''AlarmArn'', struct_field AlarmArn (\<lambda>x s. s\<lparr>AlarmArn := x\<rparr>) dec_string),
        (''Trigger'', struct_field Trigger (\<lambda>x s. s\<lparr>Trigger := x\<rparr>) (dec_AlarmTrigger L))]"

definition dec_CloudWatchAlarm ::
  "('f, 't) stdlib \<Rightarrow> json \<Rightarrow> 'f CloudWatchAlarm \<Rightarrow> 'f CloudWatchAlarm option" where
  "dec_CloudWatchAlarm L =
     dec_struct (CloudWatchAlarm_fields L)"

definition EvalMatch_fields :: "('f, 't) stdlib \<Rightarrow> 'f EvalMatch field list" where
  "EvalMatch_fields L =
       [(''value'', struct_field Value_m (\<lambda>x s. s\<lparr>Value_m := x\<rparr>) (dec_float64 L)),
        (''metric'', struct_field Metric (\<lambda>x s. s\<lparr>Metric := x\<rparr>) dec_string),
        (''tags'', struct_field Tags_m (\<lambda>x s. s\<lparr>Tags_m := x\<rparr>) dec_map_string)]"

definition dec_EvalMatch :: "('f, 't) stdlib \<Rightarrow> json \<Rightarrow> 'f EvalMatch \<Rightarrow> 'f EvalMatch option" where
  "dec_EvalMatch L =
     dec_struct (EvalMatch_fields L)"

definition GrafanaWebhook_fields :: "('f, 't) stdlib \<Rightarrow> 'f GrafanaWebhook field list" where
  "GrafanaWebhook_fields L =
       [(''dashboardId'', struct_field DashboardID (\<lambda>x s. s\<lparr>DashboardID := x\<rparr>) dec_int64),
        (''evalMatches'', struct_field EvalMatches (\<lambda>x s. s\<lparr>EvalMatches := x\<rparr>)
                            (dec_slice (dec_EvalMatch L) (zero_EvalMatch L))),
        (''imageUrl'', struct_field ImageURL (\<lambda>x s. s\<lparr>ImageURL := x\<rparr>) dec_string),
        (''message'', struct_field Message_g (\<lambda>x s. s\<lparr>Message_g := x\<rparr>) dec_string),
        (''orgId'', struct_field OrgID (\<lambda>x s. s\<lparr>OrgID := x\<rparr>) dec_int64),
        (''panelId'', struct_field PanelID (\<lambda>x s. s\<lparr>PanelID := x\<rparr>) dec_int64),
        (''ruleId'', struct_field RuleID (\<lambda>x s. s\<lparr>RuleID := x\<rparr>) dec_int64),
        (''ruleName'', struct_field RuleName (\<lambda>x s. s\<lparr>RuleName := x\<rparr>) dec_string),
        (''ruleUrl'', struct_field RuleURL (\<lambda>x s. s\<lparr>RuleURL := x\<rparr>) dec_string),
        (''state'', struct_field State (\<lambda>x s. s\<lparr>State := x\<rparr>) dec_string),
        (''tags'', struct_field Tags (\<lambda>x s. s\<lparr>Tags := x\<rparr>) dec_map_string),
        (''title'', struct_field Title_g (\<lambda>x s. s\<lparr>Title_g := x\<rparr>) dec_string)]"

definition dec_GrafanaWebhook ::
  "('f, 't) stdlib \<Rightarrow> json \<Rightarrow> 'f GrafanaWebhook \<Rightarrow> 'f GrafanaWebhook option" where
  "dec_GrafanaWebhook L =
     dec_struct (GrafanaWebhook_fields L)"

definition AlertmanagerWebhook_fields :: "('f, 't) stdlib \<Rightarrow> 'f AlertmanagerWebhook field list" where
  "AlertmanagerWebhook_fields L =
       [(''alerts'', struct_field Alerts (\<lambda>x s. s\<lparr>Alerts := x\<rparr>) (dec_slice (dec_map_iface L) [])),
        (''commonLabels'', struct_field CommonLabels (\<lambda>x s. s\<lparr>CommonLabels := x\<rparr>) dec_map_string),
        (''status'', struct_field Status (\<lambda>x s. s\<lparr>Status := x\<rparr>) dec_string),
        (''title'', struct_field Title_am (\<lambda>x s. s\<lparr>Title_am := x\<rparr>) dec_string),
        (''message'', struct_field Message_am (\<lambda>x s. s\<lparr>Message_am := x\<rparr>) dec_string)]"

definition dec_AlertmanagerWebhook ::
  "('f, 't) stdlib \<Rightarrow> json \<Rightarrow> 'f AlertmanagerWebhook \<Rightarrow> 'f AlertmanagerWebhook option" where
  "dec_AlertmanagerWebhook L =
     dec_struct (AlertmanagerWebhook_fields L)"

definition Envelope_fields :: "Envelope field list" where
  "Envelope_fields =
       [(''Message'', struct_field Message_env (\<lambda>x s. s\<lparr>Message_env := x\<rparr>) dec_string),
        (''Subject'', struct_field Subject (\<lambda>x s. s\<lparr>Subject := x\<rparr>) dec_string)]"

definition dec_Envelope :: "json \<Rightarrow> Envelope \<Rightarrow> Envelope option" where
  "dec_Envelope =
     dec_struct (Envelope_fields)"


section \<open>internal/adapter: routing\<close>

text \<open>
  The two tables of the configuration are only ever indexed; they are partial maps, and
  indexing a missing key gives the empty string.
\<close>

definition index_config :: "(string \<rightharpoonup> string) \<Rightarrow> string \<Rightarrow> string" where
  "index_config m k = (case m k of None \<Rightarrow> [] | Some v \<Rightarrow> v)"

definition bq :: string where \<comment> \<open>the backquote\<close>
  "bq = [CHR 0x60]"

subsection \<open>The cloud alarm\<close>

definition determinePriority :: "('f, 't) stdlib \<Rightarrow> 'f CloudWatchAlarm \<Rightarrow> string" where
  "determinePriority L alarm =
     (let alarmName = ToLower L (AlarmName alarm);
          namespace = Namespace (Trigger alarm)
      in if Contains alarmName ''prod'' \<or> Contains alarmName ''production'' then ''P0''
         else if Contains namespace ''RDS'' \<or> Contains namespace ''DynamoDB'' then ''P0''
         else if Contains namespace ''ELB'' \<or> Contains namespace ''5xx'' then ''P0''
         else if Contains alarmName ''cpu'' \<or> Contains alarmName ''memory'' then ''P0''
         else if Contains alarmName ''redis'' \<or> Contains alarmName ''elasticache'' then ''P1''
         else if Contains alarmName ''qa'' \<or> Contains alarmName ''staging'' then ''P2''
         else ''P2'')"

definition formatDimensionsIndented :: "Dimension list \<Rightarrow> string" where
  "formatDimensionsIndented dimensions =
     (if dimensions = [] then ''   '' @ arrow @ '' None''
      else Join (map (\<lambda>dim. ''   '' @ arrow @ '' '' @ Name_d dim @ '': '' @ Value_d dim) dimensions) NL)"

definition formatTimestamp :: "('f, 't) stdlib \<Rightarrow> string \<Rightarrow> string" where
  "formatTimestamp L timeStr =
     (case time_Parse L ''2006-01-02T15:04:05.000+0000'' timeStr of
        None \<Rightarrow> timeStr
      | Some t \<Rightarrow> time_Format L t ''2006-01-02 15:04:05 UTC'')"

definition alarm_emoji :: "string \<Rightarrow> string" where
  "alarm_emoji state =
     (if state = ''ALARM'' then emoji_siren
      else if state = ''OK'' then emoji_check
      else if state = ''INSUFFICIENT_DATA'' then emoji_warning
      else emoji_chart)"

definition alarm_stateColor :: "string \<Rightarrow> string" where
  "alarm_stateColor state =
     (if state = ''ALARM'' then bq @ emoji_red @ '' ALARM'' @ bq
      else if state = ''OK'' then bq @ emoji_green @ '' OK'' @ bq
      else if state = ''INSUFFICIENT_DATA'' then bq @ emoji_yellow @ '' INSUFFICIENT_DATA'' @ bq
      else bq @ state @ bq)"

definition formatSlackMessage :: "('f, 't) stdlib \<Rightarrow> 'f CloudWatchAlarm \<Rightarrow> string" where
  "formatSlackMessage L alarm =
     alarm_emoji (NewStateValue alarm) @ '' *CloudWatch Alarm: '' @ AlarmName alarm @ ''*'' @ NL
     @ bullet @ '' *From:* '' @ alarm_stateColor (OldStateValue alarm) @ '' '' @ arrow
       @ '' *To:* '' @ alarm_stateColor (NewStateValue alarm) @ NL
     @ bullet @ '' *Metric:* '' @ bq @ Namespace (Trigger alarm) @ ''/'' @ MetricName (Trigger alarm) @ bq @ NL
     @ bullet @ '' *Threshold:* '' @ bq @ ComparisonOperator (Trigger alarm) @ '' ''
       @ Sprintf_f L 1 (Threshold (Trigger alarm)) @ bq @ NL
     @ bullet @ '' *Period:* '' @ bq @ Sprintf_d (Period (Trigger alarm)) @ ''s over ''
       @ Sprintf_d (EvaluationPeriods (Trigger alarm)) @ '' evaluations'' @ bq @ NL
     @ bullet @ '' *Dimensions:*'' @ NL
     @ formatDimensionsIndented (fst (Dimensions (Trigger alarm))) @ NL
     @ bullet @ '' *Region:* '' @ bq @ Region alarm @ bq @ NL
     @ bullet @ '' *Reason:* '' @ NewStateReason alarm @ NL
     @ bullet @ '' *Time:* '' @ bq @ formatTimestamp L (StateChangeTime alarm) @ bq"

definition AdaptSQSMessageWithRouting ::
  "('f, 't) stdlib \<Rightarrow> string \<Rightarrow> (string \<rightharpoonup> string) \<Rightarrow> (string \<rightharpoonup> string) \<Rightarrow> json_error + AlertMessage" where
  "AdaptSQSMessageWithRouting L body channels alarmChannels =
     (case Unmarshal dec_Envelope body zero_Envelope of
        Inl err \<Rightarrow> Inl err
      | Inr envelope \<Rightarrow>
          (case Unmarshal (dec_CloudWatchAlarm L) (Message_env envelope) (zero_CloudWatchAlarm L) of
             Inl err \<Rightarrow> Inl err
           | Inr alarm \<Rightarrow>
               (let channel0 = index_config alarmChannels (AlarmName alarm);
                    channel = (if channel0 = []
                               then (let priority = determinePriority L alarm;
                                         channel1 = index_config channels priority
                                     in if channel1 = [] then index_config channels ''default'' else channel1)
                               else channel0);
                    priority = determinePriority L alarm
                in Inr \<lparr>Message = formatSlackMessage L alarm, Priority = priority, Channel = channel\<rparr>)))"

subsection \<open>The legacy webhook\<close>

definition determineGrafanaPriority_heuristic :: "('f, 't) stdlib \<Rightarrow> 'f GrafanaWebhook \<Rightarrow> string" where
  "determineGrafanaPriority_heuristic L alert =
     (let ruleName = ToLower L (RuleName alert);
          title = ToLower L (Title_g alert)
      in if Contains ruleName ''critical'' \<or> Contains title ''critical'' then ''P0''
         else if Contains ruleName ''prod'' \<or> Contains title ''prod'' then ''P0''
         else if Contains ruleName ''down'' \<or> Contains title ''down'' then ''P0''
         else if Contains ruleName ''high'' \<or> Contains title ''high'' then ''P1''
         else if Contains ruleName ''error'' \<or> Contains title ''error'' then ''P1''
         else if Contains ruleName ''warning'' \<or> Contains title ''warning'' then ''P2''
         else if Contains ruleName ''staging'' \<or> Contains title ''staging'' then ''P2''
         else ''P2'')"

text \<open>
  The switch on the channel tag has no default: a tag that is none of P0, P1, P2 falls
  through to the heuristic, like a missing tag.
\<close>

definition determineGrafanaPriority :: "('f, 't) stdlib \<Rightarrow> 'f GrafanaWebhook \<Rightarrow> string" where
  "determineGrafanaPriority L alert =
     (case map_of (Tags alert) ''channel'' of
        Some channelTag \<Rightarrow>
          (if ToUpper L channelTag = ''P0'' then ''P0''
           else if ToUpper L channelTag = ''P1'' then ''P1''
           else if ToUpper L channelTag = ''P2'' then ''P2''
           else determineGrafanaPriority_heuristic L alert)
      | None \<Rightarrow> determineGrafanaPriority_heuristic L alert)"

definition grafana_emoji :: "('f, 't) stdlib \<Rightarrow> string \<Rightarrow> string" where
  "grafana_emoji L state =
     (if ToUpper L state = ''ALERTING'' then emoji_siren
      else if ToUpper L state = ''OK'' then emoji_check
      else if ToUpper L state = ''NO_DATA'' then emoji_warning
      else if ToUpper L state = ''PENDING'' then emoji_hourglass
      else emoji_chart)"

definition grafana_stateColor :: "('f, 't) stdlib \<Rightarrow> string \<Rightarrow> string" where
  "grafana_stateColor L state =
     (if ToUpper L state = ''ALERTING'' then bq @ emoji_red @ '' ALERTING'' @ bq
      else if ToUpper L state = ''OK'' then bq @ emoji_green @ '' OK'' @ bq
      else if ToUpper L state = ''NO_DATA'' then bq @ emoji_yellow @ '' NO_DATA'' @ bq
      else if ToUpper L state = ''PENDING'' then bq @ emoji_yellow @ '' PENDING'' @ bq
      else bq @ state @ bq)"

text \<open>
  The formatter runs a \<open>range\<close> loop over the tags of every evaluation match and one over
  the tags of the alert.  \<open>\<rho> i m\<close> is the order in which the \<open>i\<close>-th of these loops
  visits the map \<open>m\<close>.
\<close>

type_synonym range_order = "nat \<Rightarrow> string gomap \<Rightarrow> (string \<times> string) list"

definition valid_order :: "range_order \<Rightarrow> bool" where
  "valid_order \<rho> = (\<forall>i m. distinct (map fst m) \<longrightarrow> enumerates (\<rho> i m) m)"

definition match_tag_shown :: "string \<times> string \<Rightarrow> bool" where
  "match_tag_shown kv = (fst kv \<noteq> ''__name__'' \<and> fst kv \<noteq> ''job'' \<and> fst kv \<noteq> ''instance'')"

definition alert_tag_shown :: "string \<times> string \<Rightarrow> bool" where
  "alert_tag_shown kv = (fst kv \<noteq> ''channel'' \<and> snd kv \<noteq> [])"

fun format_matches :: "('f, 't) stdlib \<Rightarrow> range_order \<Rightarrow> nat \<Rightarrow> 'f EvalMatch list \<Rightarrow> string" where
  "format_matches L \<rho> i [] = []"
| "format_matches L \<rho> i (match # matches) =
     (let valueStr = (if float64_is_int64 L (Value_m match)
                      then Sprintf_f L 0 (Value_m match) else Sprintf_f L 2 (Value_m match));
          importantTags = (if Tags_m match \<noteq> []
                           then map (\<lambda>kv. bq @ fst kv @ ''='' @ snd kv @ bq)
                                  (filter match_tag_shown (\<rho> i (Tags_m match)))
                           else [])
      in NL @ ''   '' @ arrow @ '' '' @ bq @ Metric match @ bq @ '': **'' @ valueStr @ ''**''
         @ (if importantTags \<noteq> [] then '' ('' @ Join importantTags '', '' @ '')'' else [])
         @ format_matches L \<rho> (Suc i) matches)"

definition formatGrafanaSlackMessage :: "('f, 't) stdlib \<Rightarrow> range_order \<Rightarrow> 'f GrafanaWebhook \<Rightarrow> string" where
  "formatGrafanaSlackMessage L \<rho> alert =
     (let importantTags = (if Tags alert \<noteq> []
                           then map (\<lambda>kv. ''   '' @ arrow @ '' '' @ bq @ fst kv @ bq @ '': '' @ snd kv)
                                  (filter alert_tag_shown (\<rho> (length (fst (EvalMatches alert))) (Tags alert)))
                           else [])
      in grafana_emoji L (State alert) @ '' *Grafana Alert: '' @ Title_g alert @ ''*'' @ NL
         @ bullet @ '' *State:* '' @ grafana_stateColor L (State alert)
         @ (if RuleName alert \<noteq> [] \<and> RuleName alert \<noteq> Title_g alert
            then NL @ bullet @ '' *Rule:* '' @ bq @ RuleName alert @ bq else [])
         @ (if Message_g alert \<noteq> [] then NL @ bullet @ '' *Description:* '' @ Message_g alert else [])
         @ (if fst (EvalMatches alert) \<noteq> []
            then NL @ bullet @ '' *Metrics:*'' @ format_matches L \<rho> 0 (fst (EvalMatches alert)) else [])
         @ (if importantTags \<noteq> [] then NL @ bullet @ '' *Labels:*'' @ NL @ Join importantTags NL else [])
         @ (if RuleURL alert \<noteq> []
            then NL @ bullet @ '' *Dashboard:* <'' @ RuleURL alert @ ''|View Alert Rule>'' else []))"

subsection \<open>The Alertmanager webhook\<close>

text \<open>The type assertions \<open>x.(string)\<close> and \<open>x.(map[string]interface{})\<close> on a map's entry.\<close>

definition entry_string :: "'f iface gomap \<Rightarrow> string \<Rightarrow> string option" where
  "entry_string m k = (case map_of m k of Some (IString s) \<Rightarrow> Some s | _ \<Rightarrow> None)"

definition entry_map :: "'f iface gomap \<Rightarrow> string \<Rightarrow> 'f iface gomap option" where
  "entry_map m k = (case map_of m k of Some (IMap x) \<Rightarrow> Some x | _ \<Rightarrow> None)"

definition nodata_indicator :: "('f, 't) stdlib \<Rightarrow> string \<Rightarrow> bool" where
  "nodata_indicator L s =
     (Contains (ToLower L s) ''nodata'' \<or> Contains (ToLower L s) ''no data''
      \<or> Contains (ToLower L s) ''data source'')"

definition alert_name_nodata :: "('f, 't) stdlib \<Rightarrow> 'f iface gomap \<Rightarrow> bool" where
  "alert_name_nodata L alert =
     (case entry_map alert ''labels'' of
        Some labels \<Rightarrow>
          (case entry_string labels ''alertname'' of
             Some alertnameStr \<Rightarrow> nodata_indicator L alertnameStr
           | None \<Rightarrow> False)
      | None \<Rightarrow> False)"

definition alert_description_nodata :: "('f, 't) stdlib \<Rightarrow> 'f iface gomap \<Rightarrow> bool" where
  "alert_description_nodata L alert =
     (case entry_map alert ''annotations'' of
        Some annotations \<Rightarrow>
          (case entry_string annotations ''description'' of
             Some descStr \<Rightarrow> nodata_indicator L descStr
           | None \<Rightarrow> False)
      | None \<Rightarrow> False)"

text \<open>The loop over the alerts that looks for a no-data alert: the priority it leaves.\<close>

fun nodata_priority :: "('f, 't) stdlib \<Rightarrow> 'f iface gomap list \<Rightarrow> string" where
  "nodata_priority L [] = []"
| "nodata_priority L (alert # alerts) =
     (if alert_name_nodata L alert then ''P1''
      else if alert_description_nodata L alert then ''P1''
      else nodata_priority L alerts)"

definition first_alert_string :: "'f iface gomap list \<Rightarrow> string \<Rightarrow> string \<Rightarrow> string option" where
  "first_alert_string alerts grp key =
     (case alerts of
        [] \<Rightarrow> None
      | alert # _ \<Rightarrow> (case entry_map alert grp of Some m \<Rightarrow> entry_string m key | None \<Rightarrow> None))"

definition am_emoji :: "('f, 't) stdlib \<Rightarrow> string \<Rightarrow> string" where
  "am_emoji L status =
     (if ToUpper L status = ''FIRING'' then emoji_siren
      else if ToUpper L status = ''RESOLVED'' then emoji_check
      else emoji_chart)"

definition am_stateColor :: "('f, 't) stdlib \<Rightarrow> string \<Rightarrow> string" where
  "am_stateColor L status =
     (if ToUpper L status = ''FIRING'' then bq @ emoji_red @ '' FIRING'' @ bq
      else if ToUpper L status = ''RESOLVED'' then bq @ emoji_green @ '' RESOLVED'' @ bq
      else bq @ status @ bq)"

definition am_alertname :: "'f AlertmanagerWebhook \<Rightarrow> string" where
  "am_alertname webhook =
     (let alertname = index_string (CommonLabels webhook) ''alertname''
      in if alertname = []
         then (case first_alert_string (fst (Alerts webhook)) ''labels'' ''alertname'' of
                 Some nameStr \<Rightarrow> nameStr | None \<Rightarrow> alertname)
         else alertname)"

text \<open>The description line: the description if the key is there, else the summary.\<close>

definition am_description :: "'f iface gomap \<Rightarrow> string" where
  "am_description annotations =
     (if map_of annotations ''description'' \<noteq> None then
        (case entry_string annotations ''description'' of
           Some descStr \<Rightarrow> if descStr \<noteq> [] then NL @ bullet @ '' *Description:* '' @ descStr else []
         | None \<Rightarrow> [])
      else
        (case entry_string annotations ''summary'' of
           Some summaryStr \<Rightarrow> if summaryStr \<noteq> [] then NL @ bullet @ '' *Description:* '' @ summaryStr else []
         | None \<Rightarrow> []))"

definition annotation_shown :: "string \<times> 'f iface \<Rightarrow> bool" where
  "annotation_shown kv =
     (fst kv \<noteq> ''description'' \<and> fst kv \<noteq> ''summary''
      \<and> (case snd kv of IString valueStr \<Rightarrow> valueStr \<noteq> [] | _ \<Rightarrow> False))"

definition annotation_line :: "('f, 't) stdlib \<Rightarrow> string \<times> 'f iface \<Rightarrow> string" where
  "annotation_line L kv =
     (let formattedKey0 = map (\<lambda>c. if c = CHR ''_'' then CHR '' '' else c) (fst kv);
          formattedKey = (if formattedKey0 \<noteq> []
                          then ToUpper L (take 1 formattedKey0) @ drop 1 formattedKey0
                          else formattedKey0)
      in NL @ bullet @ '' *'' @ formattedKey @ '':* ''
         @ (case snd kv of IString valueStr \<Rightarrow> valueStr | _ \<Rightarrow> []))"

definition nonempty_entry :: "'f iface gomap \<Rightarrow> string \<Rightarrow> string option" where
  "nonempty_entry m k = (case entry_string m k of Some s \<Rightarrow> if s \<noteq> [] then Some s else None | None \<Rightarrow> None)"

text \<open>
  \<open>\<rho>\<close> is the order in which the one \<open>range\<close> loop of the formatter visits the
  annotations of the first alert.
\<close>

type_synonym 'f annotation_order = "'f iface gomap \<Rightarrow> (string \<times> 'f iface) list"

definition valid_annotation_order :: "'f annotation_order \<Rightarrow> bool" where
  "valid_annotation_order \<rho> = (\<forall>m. distinct (map fst m) \<longrightarrow> enumerates (\<rho> m) m)"

definition formatEnhancedAlertMessage ::
  "('f, 't) stdlib \<Rightarrow> 'f annotation_order \<Rightarrow> 'f AlertmanagerWebhook \<Rightarrow> string" where
  "formatEnhancedAlertMessage L \<rho> webhook =
     am_emoji L (Status webhook) @ '' *Grafana Alert: '' @ am_alertname webhook @ ''*'' @ NL
     @ bullet @ '' *State:* '' @ am_stateColor L (Status webhook)
     @ (case fst (Alerts webhook) of
          [] \<Rightarrow> []
        | alert # _ \<Rightarrow>
            (case entry_map alert ''annotations'' of
               Some annotations \<Rightarrow>
                 am_description annotations
                 @ concat (map (annotation_line L) (filter annotation_shown (\<rho> annotations)))
             | None \<Rightarrow> [])
            @ (case nonempty_entry alert ''valueString'' of
                 Some valueString \<Rightarrow> NL @ bullet @ '' *ValueString:* '' @ valueString | None \<Rightarrow> [])
            @ (case nonempty_entry alert ''silenceURL'' of
                 Some silenceURL \<Rightarrow> NL @ bullet @ '' *Silence:* <'' @ silenceURL @ ''|Silence Alert>'' | None \<Rightarrow> [])
            @ (case nonempty_entry alert ''generatorURL'' of
                 Some generatorURL \<Rightarrow> NL @ bullet @ '' *Dashboard:* <'' @ generatorURL @ ''|View Alert Rule>''
               | None \<Rightarrow> [])
            @ (case nonempty_entry alert ''dashboardURL'' of
                 Some dashboardURL \<Rightarrow>
                   if dashboardURL \<noteq> (case entry_string alert ''generatorURL'' of Some g \<Rightarrow> g | None \<Rightarrow> [])
                   then NL @ bullet @ '' *Dashboard:* <'' @ dashboardURL @ ''|View Dashboard>'' else []
               | None \<Rightarrow> []))"

definition formatBasicAlertMessage :: "('f, 't) stdlib \<Rightarrow> 'f AlertmanagerWebhook \<Rightarrow> string" where
  "formatBasicAlertMessage L webhook =
     am_emoji L (Status webhook) @ '' *Grafana Alert: '' @ am_alertname webhook @ ''*'' @ NL
     @ bullet @ '' *State:* '' @ am_stateColor L (Status webhook)
     @ (case fst (Alerts webhook) of
          [] \<Rightarrow> []
        | alert # _ \<Rightarrow>
            (case entry_map alert ''annotations'' of
               Some annotations \<Rightarrow> am_description annotations
             | None \<Rightarrow> [])
            @ (case nonempty_entry alert ''generatorURL'' of
                 Some generatorURL \<Rightarrow> NL @ bullet @ '' *Dashboard:* <'' @ generatorURL @ ''|View Alert Rule>''
               | None \<Rightarrow> []))"

definition formatAlertmanagerSlackMessage ::
  "('f, 't) stdlib \<Rightarrow> 'f annotation_order \<Rightarrow> 'f AlertmanagerWebhook \<Rightarrow> string" where
  "formatAlertmanagerSlackMessage L \<rho> webhook =
     (let enhancedMessage = formatEnhancedAlertMessage L \<rho> webhook
      in if enhancedMessage \<noteq> [] then enhancedMessage else formatBasicAlertMessage L webhook)"

text \<open>
  \<open>adaptAlertmanagerWebhook\<close> always returns a nil error; the model returns the alert
  message alone.
\<close>

definition am_channelTag :: "'f AlertmanagerWebhook \<Rightarrow> string" where
  "am_channelTag webhook =
     (let channelTag = index_string (CommonLabels webhook) ''channel''
      in if channelTag = [] \<and> fst (Alerts webhook) \<noteq> []
         then (case first_alert_string (fst (Alerts webhook)) ''labels'' ''channel'' of
                 Some chStr \<Rightarrow> chStr | None \<Rightarrow> channelTag)
         else channelTag)"

definition am_priority :: "('f, 't) stdlib \<Rightarrow> 'f AlertmanagerWebhook \<Rightarrow> string" where
  "am_priority L webhook =
     (let channelTag = am_channelTag webhook;
          priority = (if ToUpper L (Status webhook) = ''FIRING'' \<and> fst (Alerts webhook) \<noteq> []
                      then nodata_priority L (fst (Alerts webhook)) else [])
      in if priority = []
         then (if channelTag \<noteq> []
               then (if ToUpper L channelTag = ''P0'' then ''P0''
                     else if ToUpper L channelTag = ''P1'' then ''P1''
                     else if ToUpper L channelTag = ''P2'' then ''P2''
                     else ''P2'')
               else ''P2'')
         else priority)"

definition adaptAlertmanagerWebhook ::
  "('f, 't) stdlib \<Rightarrow> 'f annotation_order \<Rightarrow> 'f AlertmanagerWebhook \<Rightarrow>
   (string \<rightharpoonup> string) \<Rightarrow> (string \<rightharpoonup> string) \<Rightarrow> AlertMessage" where
  "adaptAlertmanagerWebhook L \<rho> webhook channels alarmChannels =
     (let priority = am_priority L webhook;
          alertname = index_string (CommonLabels webhook) ''alertname'';
          channel0 = index_config alarmChannels alertname;
          channel = (if channel0 = []
                     then (let channel1 = index_config channels priority
                           in if channel1 = [] then index_config channels ''default'' else channel1)
                     else channel0)
      in \<lparr>Message = formatAlertmanagerSlackMessage L \<rho> webhook, Priority = priority, Channel = channel\<rparr>)"

subsection \<open>AdaptGrafanaWebhook\<close>

definition adaptLegacyWebhook ::
  "('f, 't) stdlib \<Rightarrow> range_order \<Rightarrow> 'f GrafanaWebhook \<Rightarrow> (string \<rightharpoonup> string) \<Rightarrow> (string \<rightharpoonup> string) \<Rightarrow> AlertMessage" where
  "adaptLegacyWebhook L \<rho> grafanaAlert channels alarmChannels =
     (let channel0 = index_config alarmChannels (RuleName grafanaAlert);
          channel = (if channel0 = []
                     then (let priority = determineGrafanaPriority L grafanaAlert;
                               channel1 = index_config channels priority
                           in if channel1 = [] then index_config channels ''default'' else channel1)
                     else channel0);
          priority = determineGrafanaPriority L grafanaAlert
      in \<lparr>Message = formatGrafanaSlackMessage L \<rho> grafanaAlert, Priority = priority, Channel = channel\<rparr>)"

text \<open>
  The body is first decoded as an Alertmanager webhook; with no error and at least one
  alert that adapter is used.  Otherwise the body is decoded again, as a legacy webhook,
  and only a failure of this second decoding is an error.
\<close>

definition AdaptGrafanaWebhook ::
  "('f, 't) stdlib \<Rightarrow> range_order \<Rightarrow> 'f annotation_order \<Rightarrow> string \<Rightarrow>
   (string \<rightharpoonup> string) \<Rightarrow> (string \<rightharpoonup> string) \<Rightarrow> json_error + AlertMessage" where
  "AdaptGrafanaWebhook L \<rho> \<rho>' body channels alarmChannels =
     (case (case Unmarshal (dec_AlertmanagerWebhook L) body zero_AlertmanagerWebhook of
              Inr alertmanagerWebhook \<Rightarrow>
                if fst (Alerts alertmanagerWebhook) \<noteq> [] then Some alertmanagerWebhook else None
            | Inl err \<Rightarrow> None) of
        Some alertmanagerWebhook \<Rightarrow>
          Inr (adaptAlertmanagerWebhook L \<rho>' alertmanagerWebhook channels alarmChannels)
      | None \<Rightarrow>
          (case Unmarshal (dec_GrafanaWebhook L) body zero_GrafanaWebhook of
             Inl err \<Rightarrow> Inl err
           | Inr grafanaAlert \<Rightarrow> Inr (adaptLegacyWebhook L \<rho> grafanaAlert channels alarmChannels)))"


section \<open>main.go: the queue handler\<close>

text \<open>
  The handler given to the poller: adapt the body, then notify the routed channel.  The
  model returns the posts handed to the chat platform together with the handler's error.
\<close>

datatype 'e handler_error = AdaptFailed json_error | NotifyFailed 'e

definition main_handler ::
  "('f, 't) stdlib \<Rightarrow> (SlackPost \<Rightarrow> 'e option) \<Rightarrow> (string \<rightharpoonup> string) \<Rightarrow> (string \<rightharpoonup> string) \<Rightarrow>
   string \<Rightarrow> SlackPost list \<times> 'e handler_error option" where
  "main_handler L PostMessage channels alarmChannels body =
     (case AdaptSQSMessageWithRouting L body channels alarmChannels of
        Inl err \<Rightarrow> ([], Some (AdaptFailed err))
      | Inr alertMsg \<Rightarrow>
          (let post = Notify_post \<lparr>channel = Channel alertMsg\<rparr> (Message alertMsg)
           in ([post], map_option NotifyFailed (PostMessage post))))"


section \<open>Properties of the notifier\<close>

lemma digit_char: "d < 10 \<Longrightarrow> of_char (''0123456789'' ! d) - 48 = (d::nat)"
proof -
  assume "d < 10"
  then consider "d = 0" | "d = 1" | "d = 2" | "d = 3" | "d = 4"
    | "d = 5" | "d = 6" | "d = 7" | "d = 8" | "d = 9"
    by (atomize_elim, arith)
  then show ?thesis by cases simp_all
qed

text \<open>\<open>decimal\<close> writes the number it is given: reading the digits back returns it.\<close>

lemma decimal_value: "foldl (\<lambda>a c. 10 * a + (of_char c - 48)) 0 (decimal n) = n"
proof (induction n rule: decimal.induct)
  case (1 n)
  show ?case
  proof (cases "n < 10")
    case True
    then have "decimal n = [''0123456789'' ! n]" by (subst decimal.simps) simp
    with True digit_char [of n] show ?thesis by simp
  next
    case False
    have d: "of_char (''0123456789'' ! (n mod 10)) - 48 = n mod 10" by (rule digit_char) simp
    from False have "decimal n = decimal (n div 10) @ [''0123456789'' ! (n mod 10)]"
      by (subst decimal.simps) simp
    with "1.IH" False d show ?thesis by simp
  qed
qed

text \<open>Two numbers with the same decimal digits are equal.\<close>

lemma decimal_inj: "decimal m = decimal n \<Longrightarrow> m = n"
proof -
  assume e: "decimal m = decimal n"
  have "m = foldl (\<lambda>a c. 10 * a + (of_char c - 48)) 0 (decimal m)" by (simp only: decimal_value)
  also have "\<dots> = foldl (\<lambda>a c. 10 * a + (of_char c - 48)) 0 (decimal n)" by (simp only: e)
  also have "\<dots> = n" by (simp only: decimal_value)
  finally show ?thesis .
qed


section \<open>Properties of the poller\<close>

lemma handle_messages_head:
  "handle_messages h d msgs w = (tr, w', out) \<Longrightarrow> (case tr of DeleteCalled m' # _ \<Rightarrow> False | _ \<Rightarrow> True)"
  by (cases msgs) (auto split: option.splits prod.splits)

lemma handle_messages_paired:
  "handle_messages h d msgs w = (tr, w', out) \<Longrightarrow> paired tr \<and> deleted tr = succeeded tr"
proof (induction msgs arbitrary: w tr w' out)
  case Nil
  then show ?case by simp
next
  case (Cons msg msgs)
  show ?case
  proof (cases "Body msg")
    case None
    with Cons.prems show ?thesis by simp
  next
    case (Some body)
    obtain r w1 where hw: "h body w = (r, w1)" by (cases "h body w")
    show ?thesis
    proof (cases r)
      case None
      obtain derr w2 where dw: "d (ReceiptHandle msg) w1 = (derr, w2)"
        by (cases "d (ReceiptHandle msg) w1")
      obtain tr2 w3 out2 where rest: "handle_messages h d msgs w2 = (tr2, w3, out2)"
        by (cases "handle_messages h d msgs w2")
      from Cons.prems Some hw None dw rest
      have "tr = HandlerCalled msg None # DeleteCalled msg # tr2" by simp
      with Cons.IH [OF rest] show ?thesis by simp
    next
      case (Some err)
      obtain tr2 w3 out2 where rest: "handle_messages h d msgs w1 = (tr2, w3, out2)"
        by (cases "handle_messages h d msgs w1")
      from Cons.prems \<open>Body msg = Some body\<close> hw Some rest
      have "tr = HandlerCalled msg (Some err) # tr2" by simp
      with Cons.IH [OF rest] handle_messages_head [OF rest] show ?thesis by simp
    qed
  qed
qed

text \<open>Unless a nil body stops the round, every message of the batch is handled, once and in order.\<close>

lemma handle_messages_handled:
  "handle_messages h d msgs w = (tr, w', Completed) \<Longrightarrow> handled tr = msgs"
proof (induction msgs arbitrary: w tr w')
  case Nil
  then show ?case by simp
next
  case (Cons msg msgs)
  then show ?case
    by (auto split: option.splits prod.splits)
qed

text \<open>
  Run on the wrapped handler and delete, the loop does what it does on the functions
  themselves, and the log of the calls is the trace, entry by entry.
\<close>

lemma handle_messages_logged:
  "handle_messages (logged_handler h) (logged_delete d) msgs (w, l0) = (tr, (w', log), out)
   \<Longrightarrow> log = l0 @ map call_of tr \<and> handle_messages h d msgs w = (tr, w', out)"
proof (induction msgs arbitrary: w l0 tr w' log out)
  case Nil
  then show ?case by simp
next
  case (Cons msg msgs)
  show ?case
  proof (cases "Body msg")
    case None
    with Cons.prems show ?thesis by simp
  next
    case (Some body)
    obtain r w1 where hw: "h body w = (r, w1)" by (cases "h body w")
    show ?thesis
    proof (cases r)
      case None
      obtain derr w2 where dw: "d (ReceiptHandle msg) w1 = (derr, w2)"
        by (cases "d (ReceiptHandle msg) w1")
      let ?l = "l0 @ [HandlerCall body None, DeleteCall (ReceiptHandle msg)]"
      obtain tr2 w3 log3 out2 where rest:
        "handle_messages (logged_handler h) (logged_delete d) msgs (w2, ?l) = (tr2, (w3, log3), out2)"
        by (cases "handle_messages (logged_handler h) (logged_delete d) msgs (w2, ?l)") auto
      from hw None have lh: "logged_handler h body (w, l0) = (None, (w1, l0 @ [HandlerCall body None]))"
        by (simp add: logged_handler_def)
      from dw have ld: "logged_delete d (ReceiptHandle msg) (w1, l0 @ [HandlerCall body None]) = (derr, (w2, ?l))"
        by (simp add: logged_delete_def)
      from Cons.prems Some rest
      have e: "tr = HandlerCalled msg None # DeleteCalled msg # tr2" "w' = w3" "log = log3" "out = out2"
        by (simp_all add: lh ld)
      from Cons.IH [OF rest] e Some hw None dw show ?thesis by simp
    next
      case (Some err)
      let ?l = "l0 @ [HandlerCall body (Some err)]"
      obtain tr2 w3 log3 out2 where rest:
        "handle_messages (logged_handler h) (logged_delete d) msgs (w1, ?l) = (tr2, (w3, log3), out2)"
        by (cases "handle_messages (logged_handler h) (logged_delete d) msgs (w1, ?l)") auto
      from hw Some have lh: "logged_handler h body (w, l0) = (Some err, (w1, ?l))"
        by (simp add: logged_handler_def)
      from Cons.prems \<open>Body msg = Some body\<close> rest
      have e: "tr = HandlerCalled msg (Some err) # tr2" "w' = w3" "log = log3" "out = out2"
        by (simp_all add: lh)
      from Cons.IH [OF rest] e \<open>Body msg = Some body\<close> hw Some show ?thesis by simp
    qed
  qed
qed

text \<open>
  The calls of the loop serve the messages it handled, which are the first messages of
  the batch, and all of them unless a nil body stopped the round.
\<close>

lemma handle_messages_served:
  "handle_messages h d msgs w = (tr, w', out)
   \<Longrightarrow> served (handled tr) (map call_of tr)
       \<and> (\<exists>rest. msgs = handled tr @ rest \<and> (out = Completed \<longrightarrow> rest = []))"
proof (induction msgs arbitrary: w tr w' out)
  case Nil
  then show ?case by simp
next
  case (Cons msg msgs)
  show ?case
  proof (cases "Body msg")
    case None
    with Cons.prems show ?thesis by auto
  next
    case (Some body)
    obtain r w1 where hw: "h body w = (r, w1)" by (cases "h body w")
    show ?thesis
    proof (cases r)
      case None
      obtain derr w2 where dw: "d (ReceiptHandle msg) w1 = (derr, w2)"
        by (cases "d (ReceiptHandle msg) w1")
      obtain tr2 w3 out2 where rest: "handle_messages h d msgs w2 = (tr2, w3, out2)"
        by (cases "handle_messages h d msgs w2")
      from Cons.prems Some hw None dw rest
      have e: "tr = HandlerCalled msg None # DeleteCalled msg # tr2" "out = out2" by simp_all
      from Cons.IH [OF rest] e Some show ?thesis by simp
    next
      case (Some err)
      obtain tr2 w3 out2 where rest: "handle_messages h d msgs w1 = (tr2, w3, out2)"
        by (cases "handle_messages h d msgs w1")
      from Cons.prems \<open>Body msg = Some body\<close> hw Some rest
      have e: "tr = HandlerCalled msg (Some err) # tr2" "out = out2" by simp_all
      from Cons.IH [OF rest] e \<open>Body msg = Some body\<close> show ?thesis by simp
    qed
  qed
qed

text \<open>
  C7.  In every polling round the delete operation is invoked exactly once for each
  message whose handler returned success, right after that handler call and with the
  receipt handle of that message, and is not invoked for a message whose handler returned
  an error.  The statement is about the calls the handler and the delete really receive:
  they are wrapped so that each call logs itself, and the log of the round is \<open>served\<close> for the
  messages handled.  These are the whole batch when the round completes, and its first
  messages when a nil body stops it; when \<open>ReceiveMessage\<close> fails nothing is called.  The
  log is, entry by entry, the trace of the round, which is the trace and the final world
  of the round on the functions themselves; the trace is \<open>paired\<close> and deletes the
  successfully handled messages, in order and with the same multiplicity.
\<close>

theorem poll_delete_once_per_success:
  assumes "Poll_round (unlogged_receive ReceiveMessage) (logged_handler handler) (logged_delete DeleteMessage) (w, [])
             = (tr, (w', log), out)"
  shows "served (handled tr) log
       \<and> (\<forall>msgs w1. ReceiveMessage w = (Inr msgs, w1) \<longrightarrow>
             (\<exists>rest. msgs = handled tr @ rest \<and> (out = Completed \<longrightarrow> rest = [] \<and> served msgs log)))
       \<and> (\<forall>err w1. ReceiveMessage w = (Inl err, w1) \<longrightarrow> log = [])
       \<and> log = map call_of tr
       \<and> Poll_round ReceiveMessage handler DeleteMessage w = (tr, w', out)
       \<and> paired tr \<and> deleted tr = succeeded tr"
proof (cases "ReceiveMessage w")
  case (Pair r w1)
  show ?thesis
  proof (cases r)
    case (Inl err)
    with Pair assms have "tr = []" "log = []" "w' = w1" "out = Completed"
      by (simp_all add: Poll_round_def unlogged_receive_def)
    with Pair Inl show ?thesis by (simp add: Poll_round_def)
  next
    case (Inr msgs)
    with Pair assms
    have "handle_messages (logged_handler handler) (logged_delete DeleteMessage) msgs (w1, []) = (tr, (w', log), out)"
      by (simp add: Poll_round_def unlogged_receive_def)
    from handle_messages_logged [OF this]
    have l: "log = map call_of tr" and h: "handle_messages handler DeleteMessage msgs w1 = (tr, w', out)"
      by simp_all
    from handle_messages_served [OF h] obtain rest where
      s: "served (handled tr) (map call_of tr)" and r: "msgs = handled tr @ rest" "out = Completed \<longrightarrow> rest = []"
      by blast
    from h have p: "paired tr \<and> deleted tr = succeeded tr" by (rule handle_messages_paired)
    from h Pair Inr have q: "Poll_round ReceiveMessage handler DeleteMessage w = (tr, w', out)"
      by (simp add: Poll_round_def)
    from s r l have "\<exists>rest. msgs = handled tr @ rest \<and> (out = Completed \<longrightarrow> rest = [] \<and> served msgs log)"
      by auto
    with s l p q Pair Inr show ?thesis by simp
  qed
qed

theorem poll_delete_once_per_success_witness:
  "Poll_round
     (unlogged_receive (\<lambda>w. (Inr [\<lparr>Body = Some ''good'', ReceiptHandle = Some ''r1''\<rparr>,
                                   \<lparr>Body = Some ''bad'', ReceiptHandle = Some ''r2''\<rparr>], w)))
     (logged_handler (\<lambda>body w. (if body = ''good'' then None else Some ''adapt failed'', Suc w)))
     (logged_delete (\<lambda>rh w. (None, 10 * w))) (0 :: nat, [])
   = ([HandlerCalled \<lparr>Body = Some ''good'', ReceiptHandle = Some ''r1''\<rparr> None,
       DeleteCalled \<lparr>Body = Some ''good'', ReceiptHandle = Some ''r1''\<rparr>,
       HandlerCalled \<lparr>Body = Some ''bad'', ReceiptHandle = Some ''r2''\<rparr> (Some ''adapt failed'')],
      (11, [HandlerCall ''good'' None, DeleteCall (Some ''r1''), HandlerCall ''bad'' (Some ''adapt failed'')]),
      Completed)
   \<and> served [\<lparr>Body = Some ''good'', ReceiptHandle = Some ''r1''\<rparr>,
              \<lparr>Body = Some ''bad'', ReceiptHandle = Some ''r2''\<rparr>]
        [HandlerCall ''good'' None, DeleteCall (Some ''r1''), HandlerCall ''bad'' (Some ''adapt failed'')]
   \<and> \<not> served [\<lparr>Body = Some ''good'', ReceiptHandle = Some ''r1''\<rparr>,
              \<lparr>Body = Some ''bad'', ReceiptHandle = Some ''r2''\<rparr>]
        [HandlerCall ''good'' None, DeleteCall (Some ''r1''), HandlerCall ''bad'' (Some ''adapt failed''),
         DeleteCall (Some ''r2'')]"
proof -
  have run: "Poll_round
     (unlogged_receive (\<lambda>w. (Inr [\<lparr>Body = Some ''good'', ReceiptHandle = Some ''r1''\<rparr>,
                                   \<lparr>Body = Some ''bad'', ReceiptHandle = Some ''r2''\<rparr>], w)))
     (logged_handler (\<lambda>body w. (if body = ''good'' then None else Some ''adapt failed'', Suc w)))
     (logged_delete (\<lambda>rh w. (None, 10 * w))) (0 :: nat, [])
   = ([HandlerCalled \<lparr>Body = Some ''good'', ReceiptHandle = Some ''r1''\<rparr> None,
       DeleteCalled \<lparr>Body = Some ''good'', ReceiptHandle = Some ''r1''\<rparr>,
       HandlerCalled \<lparr>Body = Some ''bad'', ReceiptHandle = Some ''r2''\<rparr> (Some ''adapt failed'')],
      (11, [HandlerCall ''good'' None, DeleteCall (Some ''r1''), HandlerCall ''bad'' (Some ''adapt failed'')]),
      Completed)"
    by (simp add: Poll_round_def unlogged_receive_def logged_handler_def logged_delete_def)
  from poll_delete_once_per_success [OF run] run show ?thesis by simp
qed


section \<open>Properties of the interactive callback\<close>

subsection \<open>The replay window\<close>

lemma ParseInt64_range: "ParseInt64 s = Some v \<Longrightarrow> - (2 ^ 63) \<le> v \<and> v < 2 ^ 63"
  by (auto simp: ParseInt64_def Let_def split: prod.splits if_splits)

lemma ParseInt64_nonempty: "ParseInt64 s = Some v \<Longrightarrow> s \<noteq> []"
  by (auto simp: ParseInt64_def Let_def split: prod.splits if_splits)

lemma sint_sub_int64:
  fixes now :: "64 word"
  assumes "- (2 ^ 63) \<le> ts" "ts < 2 ^ 63"
  shows "sint (now - word_of_int ts) = signed_take_bit 63 (sint now - ts)"
proof -
  have ts: "sint (word_of_int ts :: 64 word) = ts"
    using assms by (simp add: sint_sbintrunc' signed_take_bit_int_eq_self)
  have "sint (now - word_of_int ts) = signed_take_bit 63 (sint now - sint (word_of_int ts :: 64 word))"
    by (simp add: sint_word_ariths)
  then show ?thesis by (simp only: ts)
qed

lemma signed_take_bit_63_over:
  fixes k :: int
  assumes "2 ^ 63 \<le> k" "k < 2 ^ 64"
  shows "signed_take_bit 63 k = k - 2 ^ 64"
proof -
  have "(k + 2 ^ 63) mod 2 ^ 64 = (k + 2 ^ 63 - 2 ^ 64) mod 2 ^ 64"
    by (metis minus_mod_self2)
  also have "\<dots> = k + 2 ^ 63 - 2 ^ 64"
    using assms by (intro mod_pos_pos_trivial) simp_all
  finally show ?thesis
    by (simp add: signed_take_bit_eq_take_bit_shift take_bit_eq_mod)
qed

text \<open>
  C1, as the claim states it, fails: the check is \<open>now - ts > 300\<close>, one-sided.  A request
  whose timestamp lies 1000 seconds in the future and whose signature is the expected one
  is accepted, whatever HMAC-SHA256 computes.  So is a correctly signed request whose
  timestamp is the least \<open>int64\<close>: the subtraction wraps to a negative number.
\<close>

theorem verify_future_counterexample:
  "\<forall>L :: ('f, 't) stdlib.
     verifySlackRequest L ''8f742231b10e8888abcd99yyyzzz85a5'' 1700000000
       [''X-Slack-Request-Timestamp'' \<mapsto> [''1700001000''],
        ''X-Slack-Signature'' \<mapsto>
           [''v0='' @ EncodeToString (hmac_sha256 L ''8f742231b10e8888abcd99yyyzzz85a5''
                                        ''v0:1700001000:payload=%7B%7D'')]]
       ''payload=%7B%7D''
   \<and> verifySlackRequest L ''8f742231b10e8888abcd99yyyzzz85a5'' 1700000000
       [''X-Slack-Request-Timestamp'' \<mapsto> [''-9223372036854775808''],
        ''X-Slack-Signature'' \<mapsto>
           [''v0='' @ EncodeToString (hmac_sha256 L ''8f742231b10e8888abcd99yyyzzz85a5''
                                        ''v0:-9223372036854775808:payload=%7B%7D'')]]
       ''payload=%7B%7D''"
  by (simp add: verifySlackRequest_def Header_Get_def ParseInt64_def is_digit_def digits_value_def Let_def)

text \<open>
  C1, amended.  For a request whose timestamp header parses to \<open>ts\<close>, the verifier
  compares the difference \<open>now - ts\<close>, computed in \<open>int64\<close> with wrap-around, with 300:
  when it exceeds 300 the request is rejected; otherwise the window check lets the request
  through and it is accepted exactly when its signature header equals the expected
  signature.  When the exact difference fits \<open>int64\<close> the computed difference is the
  exact one, so a timestamp more than 300 seconds in the past is rejected and a timestamp
  any distance in the future passes the window check.  When the exact difference is
  \<open>2^63\<close> or more the computed one is negative and the window check passes too.
\<close>

theorem verify_window:
  assumes "ParseInt64 (Header_Get header ''X-Slack-Request-Timestamp'') = Some ts"
  shows "(300 < sint (now - word_of_int ts) \<longrightarrow> \<not> verifySlackRequest L secret now header body) \<and>
         (sint (now - word_of_int ts) \<le> 300 \<longrightarrow>
            verifySlackRequest L secret now header body =
              (Header_Get header ''X-Slack-Signature'' =
                 ''v0='' @ EncodeToString (hmac_sha256 L secret
                    (''v0:'' @ Header_Get header ''X-Slack-Request-Timestamp'' @ '':'' @ body)))) \<and>
         (- (2 ^ 63) \<le> sint now - ts \<and> sint now - ts < 2 ^ 63 \<longrightarrow>
            sint (now - word_of_int ts) = sint now - ts) \<and>
         (2 ^ 63 \<le> sint now - ts \<longrightarrow> sint (now - word_of_int ts) = sint now - ts - 2 ^ 64
            \<and> sint (now - word_of_int ts) < 0)"
proof -
  from assms have r: "- (2 ^ 63) \<le> ts" "ts < 2 ^ 63"
    and ne: "Header_Get header ''X-Slack-Request-Timestamp'' \<noteq> []"
    using ParseInt64_range ParseInt64_nonempty by blast+
  have d: "sint (now - word_of_int ts) = signed_take_bit 63 (sint now - ts)"
    using r by (rule sint_sub_int64)
  have a: "(300 < sint (now - word_of_int ts) \<longrightarrow> \<not> verifySlackRequest L secret now header body) \<and>
         (sint (now - word_of_int ts) \<le> 300 \<longrightarrow>
            verifySlackRequest L secret now header body =
              (Header_Get header ''X-Slack-Signature'' =
                 ''v0='' @ EncodeToString (hmac_sha256 L secret
                    (''v0:'' @ Header_Get header ''X-Slack-Request-Timestamp'' @ '':'' @ body))))"
    using assms ne by (auto simp: verifySlackRequest_def Let_def)
  have b: "- (2 ^ 63) \<le> sint now - ts \<and> sint now - ts < 2 ^ 63 \<longrightarrow>
            sint (now - word_of_int ts) = sint now - ts"
    unfolding d by (simp add: signed_take_bit_int_eq_self)
  have c: "2 ^ 63 \<le> sint now - ts \<longrightarrow> sint (now - word_of_int ts) = sint now - ts - 2 ^ 64
            \<and> sint (now - word_of_int ts) < 0"
  proof
    assume o: "2 ^ 63 \<le> sint now - ts"
    have "sint now < 2 ^ 63" using sint_lt [of now] by simp
    with r have u: "sint now - ts < 2 ^ 64" by simp
    from o u have "signed_take_bit 63 (sint now - ts) = sint now - ts - 2 ^ 64"
      by (rule signed_take_bit_63_over)
    with u show "sint (now - word_of_int ts) = sint now - ts - 2 ^ 64 \<and> sint (now - word_of_int ts) < 0"
      unfolding d by simp
  qed
  from a b c show ?thesis by blast
qed

text \<open>
  A correctly signed request whose timestamp lies 301 seconds in the past is rejected: the
  difference fits \<open>int64\<close> and is 301.
\<close>

theorem verify_window_witness:
  "\<forall>L :: ('f, 't) stdlib.
     sint (1700000301 - word_of_int 1700000000 :: 64 word) = 301
   \<and> \<not> verifySlackRequest L ''8f742231b10e8888abcd99yyyzzz85a5'' 1700000301
       [''X-Slack-Request-Timestamp'' \<mapsto> [''1700000000''],
        ''X-Slack-Signature'' \<mapsto>
           [''v0='' @ EncodeToString (hmac_sha256 L ''8f742231b10e8888abcd99yyyzzz85a5''
                                        ''v0:1700000000:payload=%7B%7D'')]]
       ''payload=%7B%7D''"
proof
  fix L :: "('f, 't) stdlib"
  let ?h = "[''X-Slack-Request-Timestamp'' \<mapsto> [''1700000000''],
        ''X-Slack-Signature'' \<mapsto>
           [''v0='' @ EncodeToString (hmac_sha256 L ''8f742231b10e8888abcd99yyyzzz85a5''
                                        ''v0:1700000000:payload=%7B%7D'')]]"
  have p: "ParseInt64 (Header_Get ?h ''X-Slack-Request-Timestamp'') = Some 1700000000"
    by (simp add: Header_Get_def ParseInt64_def is_digit_def digits_value_def)
  have a: "- (2 ^ 63) \<le> sint (1700000301 :: 64 word) - 1700000000
           \<and> sint (1700000301 :: 64 word) - 1700000000 < 2 ^ 63" by simp
  have b: "sint (1700000301 :: 64 word) - 1700000000 = 301" by simp
  from verify_window [OF p, of 1700000301 L "''8f742231b10e8888abcd99yyyzzz85a5''" "''payload=%7B%7D''"] a b
  show "sint (1700000301 - word_of_int 1700000000 :: 64 word) = 301
   \<and> \<not> verifySlackRequest L ''8f742231b10e8888abcd99yyyzzz85a5'' 1700000301 ?h ''payload=%7B%7D''"
    by simp
qed

subsection \<open>The outcome of an acknowledge action\<close>

lemma HasPrefix_append: "HasPrefix (p @ s) p"
  by (simp add: HasPrefix_def)

lemma Contains_iff: "Contains s sub \<longleftrightarrow> (\<exists>a b. s = a @ sub @ b)"
proof (induction s)
  case Nil
  then show ?case by auto
next
  case (Cons c cs)
  show ?case
  proof
    assume "Contains (c # cs) sub"
    then consider "HasPrefix (c # cs) sub" | "Contains cs sub" by auto
    then show "\<exists>a b. c # cs = a @ sub @ b"
    proof cases
      case 1
      then have "c # cs = [] @ sub @ drop (length sub) (c # cs)"
        by (metis HasPrefix_def append_Nil append_take_drop_id)
      then show ?thesis by blast
    next
      case 2
      with Cons.IH obtain a b where "cs = a @ sub @ b" by blast
      then have "c # cs = (c # a) @ sub @ b" by simp
      then show ?thesis by blast
    qed
  next
    assume "\<exists>a b. c # cs = a @ sub @ b"
    then obtain a b where ab: "c # cs = a @ sub @ b" by blast
    show "Contains (c # cs) sub"
    proof (cases a)
      case Nil
      with ab have "HasPrefix (c # cs) sub" by (simp add: HasPrefix_def)
      then show ?thesis by simp
    next
      case (Cons a1 as)
      with ab have "cs = as @ sub @ b" by simp
      with Cons.IH have "Contains cs sub" by blast
      then show ?thesis by simp
    qed
  qed
qed

lemma FindSubmatch_first:
  assumes "\<forall>i < length pre. \<not> HasPrefix (drop i (pre @ lit @ m @ post)) lit"
      and "m \<noteq> []" and "\<forall>c \<in> set m. cls c"
  shows "FindSubmatch lit cls (pre @ lit @ m @ post) = Some (m @ takeWhile cls post)"
  using assms(1)
proof (induction pre)
  case Nil
  from assms(2) obtain c cs where m: "m = c # cs" by (cases m) auto
  have tw: "takeWhile cls (m @ post) = m @ takeWhile cls post"
    using assms(3) by simp
  show ?case
  proof (cases lit)
    case Nil
    with m tw show ?thesis by (simp add: HasPrefix_def)
  next
    case (Cons l ls)
    have "HasPrefix ((l # ls) @ m @ post) (l # ls)" by (rule HasPrefix_append)
    with Cons m tw show ?thesis by (simp add: HasPrefix_def)
  qed
next
  case (Cons p ps)
  from Cons.prems have "\<not> HasPrefix (p # ps @ lit @ m @ post) lit"
    by (metis append_Cons drop0 length_greater_0_conv list.distinct(1))
  moreover have "\<forall>i<length ps. \<not> HasPrefix (drop i (ps @ lit @ m @ post)) lit"
  proof (intro allI impI)
    fix i assume "i < length ps"
    then have "Suc i < length (p # ps)" by simp
    with Cons.prems have "\<not> HasPrefix (drop (Suc i) ((p # ps) @ lit @ m @ post)) lit" by blast
    then show "\<not> HasPrefix (drop i (ps @ lit @ m @ post)) lit" by simp
  qed
  ultimately show ?case using Cons.IH by simp
qed

lemma strip_one_Some:
  "strip_one es s = Some r \<Longrightarrow> \<exists>e \<in> set es. e \<noteq> [] \<and> HasPrefix s e \<and> r = drop (length e) s"
  by (induction es) (auto split: if_splits)

lemma strip_all_keeps:
  assumes "\<forall>e \<in> set es. c \<notin> set e"
  shows "\<exists>x'. strip_all es (x @ c # y) = x' @ c # y"
proof (induction "length x" arbitrary: x rule: less_induct)
  case less
  show ?case
  proof (cases "strip_one es (x @ c # y)")
    case None
    then have "strip_all es (x @ c # y) = x @ c # y" by (subst strip_all.simps) simp
    then show ?thesis by blast
  next
    case (Some r)
    then obtain e where e: "e \<in> set es" "e \<noteq> []" "HasPrefix (x @ c # y) e" "r = drop (length e) (x @ c # y)"
      using strip_one_Some by blast
    have le: "length e \<le> length x"
    proof (rule ccontr)
      assume "\<not> length e \<le> length x"
      then have lt: "length x < length e" by simp
      from e(3) have "e = take (length e) (x @ c # y)" by (simp add: HasPrefix_def)
      then have "e ! length x = (x @ c # y) ! length x" using lt by (metis nth_take)
      then have "e ! length x = c" by simp
      with lt have "c \<in> set e" by (metis nth_mem)
      with assms e(1) show False by blast
    qed
    with e(4) have r: "r = drop (length e) x @ c # y" by simp
    from e(2) le have "length (drop (length e) x) < length x" by (cases e) auto
    from less [OF this] obtain x' where "strip_all es (drop (length e) x @ c # y) = x' @ c # y" by blast
    moreover from Some r have "strip_all es (x @ c # y) = strip_all es (drop (length e) x @ c # y)"
      by (subst strip_all.simps) simp
    ultimately show ?thesis by auto
  qed
qed

lemma TrimSpace_disk_full: "\<exists>r'. TrimSpace (''disk-full'' @ r) = ''disk-full'' @ r'"
proof -
  have "strip_one space_encodings (''disk-full'' @ r) = None"
    by (simp add: space_encodings_def HasPrefix_def)
  then have left: "strip_all space_encodings (''disk-full'' @ r) = ''disk-full'' @ r"
    by (subst strip_all.simps) simp
  have "\<forall>e \<in> set (map rev space_encodings). CHR ''l'' \<notin> set e"
    by (simp add: space_encodings_def)
  from strip_all_keeps [OF this, of "rev r" "''luf-ksid''"]
  obtain x' where "strip_all (map rev space_encodings) (rev r @ ''lluf-ksid'') = x' @ ''lluf-ksid''"
    by auto
  with left have "TrimSpace (''disk-full'' @ r) = ''disk-full'' @ rev x'"
    by (simp add: TrimSpace_def)
  then show ?thesis by blast
qed

lemma Contains_mid: "Contains (a @ sub @ b) sub"
  using Contains_iff by blast

text \<open>
  C8, as the claim states it, fails: \<open>extractAlertInfo\<close> looks for the marker
  \<open>Grafana Alert:\<close> first.  A message that contains \<open>CloudWatch Alarm: disk-full\<close> and
  a reason line mentioning \<open>Grafana Alert:\<close> is read as a Grafana message, and the outcome
  names what follows that marker; \<open>disk-full\<close> does not occur in it.
\<close>

theorem acknowledge_outcome_counterexample:
  "handleInteractive_text
     \<lparr>PayloadType = ''block_actions'',
      Actions = [\<lparr>ActionID = ''acknowledge'', Value = ''alert_172''\<rparr>],
      UserName = ''alice'',
      ResponseURL = ''https://hooks.slack.com/actions/T0/1/x'',
      MessageText = emoji_siren @ '' *CloudWatch Alarm: disk-full*'' @ NL
                    @ bullet @ '' *Reason:* Grafana Alert: volume check failed'',
      MessageBlocks = []\<rparr>
   = Inr (emoji_check @ '' **Alert '' @ [CHR 0x27] @ ''volume check failed'' @ [CHR 0x27]
          @ '' acknowledged by alice**'' @ NL @ NL @ ''_This alert is now being handled._'')
   \<and> \<not> Contains (emoji_check @ '' **Alert '' @ [CHR 0x27] @ ''volume check failed'' @ [CHR 0x27]
          @ '' acknowledged by alice**'' @ NL @ NL @ ''_This alert is now being handled._'') ''disk-full''"
  by (simp add: handleInteractive_text_def extractAlertInfo_def responseText_def Let_def
      HasPrefix_def emoji_siren_def emoji_check_def NL_def bullet_def not_star_nl_def not_nl_def
      TrimSpace_def strip_all.simps space_encodings_def)

text \<open>
  C8, amended.  For an acknowledge action whose original message text does not contain
  \<open>Grafana Alert:\<close> and in which the first occurrence of \<open>CloudWatch Alarm: \<close> is the
  one followed by \<open>disk-full\<close>, the outcome text contains \<open>disk-full\<close> and the acting
  user's name, opens as an acknowledgement and ends with the sentence that the alert is
  now being handled.
\<close>

theorem acknowledge_outcome:
  assumes act: "Actions p = action # others" "ActionID action = ''acknowledge''"
      and mtext: "MessageText p = pre @ ''CloudWatch Alarm: disk-full'' @ post"
      and nog: "\<not> Contains (MessageText p) ''Grafana Alert:''"
      and first: "\<forall>i < length pre. \<not> HasPrefix (drop i (MessageText p)) ''CloudWatch Alarm: ''"
  shows "\<exists>out front. handleInteractive_text p = Inr out
           \<and> Contains out ''disk-full'' \<and> Contains out (UserName p)
           \<and> out = emoji_check @ '' **Alert '' @ front @ NL @ NL @ ''_This alert is now being handled._''"
proof -
  let ?text = "MessageText p"
  have cw: "Contains ?text ''CloudWatch Alarm:''"
  proof -
    have "?text = pre @ ''CloudWatch Alarm:'' @ ('' disk-full'' @ post)" using mtext by simp
    then show ?thesis using Contains_mid by metis
  qed
  have t2: "?text = pre @ ''CloudWatch Alarm: '' @ ''disk-full'' @ post" using mtext by simp
  have "FindSubmatch ''CloudWatch Alarm: '' not_star_nl (pre @ ''CloudWatch Alarm: '' @ ''disk-full'' @ post)
          = Some (''disk-full'' @ takeWhile not_star_nl post)"
  proof (rule FindSubmatch_first)
    show "\<forall>i<length pre. \<not> HasPrefix (drop i (pre @ ''CloudWatch Alarm: '' @ ''disk-full'' @ post)) ''CloudWatch Alarm: ''"
      using first t2 by simp
    show "''disk-full'' \<noteq> []" by simp
    show "\<forall>c\<in>set ''disk-full''. not_star_nl c" by (simp add: not_star_nl_def)
  qed
  with t2 have fs: "FindSubmatch ''CloudWatch Alarm: '' not_star_nl ?text = Some (''disk-full'' @ takeWhile not_star_nl post)"
    by simp
  obtain r' where tr: "TrimSpace (''disk-full'' @ takeWhile not_star_nl post) = ''disk-full'' @ r'"
    using TrimSpace_disk_full by blast
  define info where "info = extractAlertInfo ?text"
  have name: "Name info = ''disk-full'' @ r'"
    using nog cw fs tr by (simp add: info_def extractAlertInfo_def)
  then have ne: "Name info \<noteq> []" by simp
  define d where "d = (if Description info \<noteq> [] then NL @ bullet @ '' *Description:* '' @ Description info else [])"
  define front where "front = [CHR 0x27] @ Name info @ [CHR 0x27] @ '' acknowledged by '' @ UserName p @ ''**'' @ d"
  define out where "out = emoji_check @ '' **Alert '' @ front @ NL @ NL @ ''_This alert is now being handled._''"
  have res: "handleInteractive_text p = Inr out"
    using act ne by (simp add: handleInteractive_text_def Let_def responseText_def info_def [symmetric] out_def front_def d_def)
  have c1: "Contains out ''disk-full''"
  proof -
    have "out = (emoji_check @ '' **Alert '' @ [CHR 0x27]) @ ''disk-full''
                 @ (r' @ [CHR 0x27] @ '' acknowledged by '' @ UserName p @ ''**'' @ d @ NL @ NL @ ''_This alert is now being handled._'')"
      by (simp add: out_def front_def name)
    then show ?thesis using Contains_mid by metis
  qed
  have c2: "Contains out (UserName p)"
  proof -
    have "out = (emoji_check @ '' **Alert '' @ [CHR 0x27] @ Name info @ [CHR 0x27] @ '' acknowledged by '') @ UserName p
                 @ (''**'' @ d @ NL @ NL @ ''_This alert is now being handled._'')"
      by (simp add: out_def front_def)
    then show ?thesis using Contains_mid by metis
  qed
  from res c1 c2 out_def show ?thesis by blast
qed


theorem acknowledge_outcome_witness:
  "handleInteractive_text
     \<lparr>PayloadType = ''block_actions'',
      Actions = [\<lparr>ActionID = ''acknowledge'', Value = ''alert_172''\<rparr>],
      UserName = ''alice'',
      ResponseURL = ''https://hooks.slack.com/actions/T0/1/x'',
      MessageText = emoji_siren @ '' *CloudWatch Alarm: disk-full*'' @ NL
                    @ bullet @ '' *Reason:* Threshold Crossed'',
      MessageBlocks = []\<rparr>
   = Inr (emoji_check @ '' **Alert '' @ [CHR 0x27] @ ''disk-full'' @ [CHR 0x27]
          @ '' acknowledged by alice**'' @ NL @ bullet @ '' *Description:* Threshold Crossed''
          @ NL @ NL @ ''_This alert is now being handled._'')
   \<and> Contains (emoji_check @ '' **Alert '' @ [CHR 0x27] @ ''disk-full'' @ [CHR 0x27]
          @ '' acknowledged by alice**'' @ NL @ bullet @ '' *Description:* Threshold Crossed''
          @ NL @ NL @ ''_This alert is now being handled._'') ''disk-full''
   \<and> Contains (emoji_check @ '' **Alert '' @ [CHR 0x27] @ ''disk-full'' @ [CHR 0x27]
          @ '' acknowledged by alice**'' @ NL @ bullet @ '' *Description:* Threshold Crossed''
          @ NL @ NL @ ''_This alert is now being handled._'') ''alice''"
proof -
  let ?p = "\<lparr>PayloadType = ''block_actions'',
      Actions = [\<lparr>ActionID = ''acknowledge'', Value = ''alert_172''\<rparr>],
      UserName = ''alice'',
      ResponseURL = ''https://hooks.slack.com/actions/T0/1/x'',
      MessageText = emoji_siren @ '' *CloudWatch Alarm: disk-full*'' @ NL
                    @ bullet @ '' *Reason:* Threshold Crossed'',
      MessageBlocks = []\<rparr>"
  let ?out = "emoji_check @ '' **Alert '' @ [CHR 0x27] @ ''disk-full'' @ [CHR 0x27]
          @ '' acknowledged by alice**'' @ NL @ bullet @ '' *Description:* Threshold Crossed''
          @ NL @ NL @ ''_This alert is now being handled._''"
  have h1: "Actions ?p = \<lparr>ActionID = ''acknowledge'', Value = ''alert_172''\<rparr> # []" by simp
  have h2: "ActionID \<lparr>ActionID = ''acknowledge'', Value = ''alert_172''\<rparr> = ''acknowledge''" by simp
  have h3: "MessageText ?p = (emoji_siren @ '' *'') @ ''CloudWatch Alarm: disk-full''
              @ (''*'' @ NL @ bullet @ '' *Reason:* Threshold Crossed'')" by simp
  have h4: "\<not> Contains (MessageText ?p) ''Grafana Alert:''"
    by (simp add: emoji_siren_def NL_def bullet_def HasPrefix_def)
  have h5: "\<forall>i < length (emoji_siren @ '' *''). \<not> HasPrefix (drop i (MessageText ?p)) ''CloudWatch Alarm: ''"
    by (simp add: emoji_siren_def NL_def bullet_def HasPrefix_def less_Suc_eq numeral_eq_Suc)
  from acknowledge_outcome [OF h1 h2 h3 h4 h5]
  obtain out where o: "handleInteractive_text ?p = Inr out" "Contains out ''disk-full''" "Contains out (UserName ?p)"
    by blast
  have e: "handleInteractive_text ?p = Inr ?out"
    by (simp add: handleInteractive_text_def extractAlertInfo_def responseText_def Let_def
      HasPrefix_def emoji_siren_def emoji_check_def NL_def bullet_def not_star_nl_def not_nl_def
      TrimSpace_def strip_all.simps space_encodings_def)
  with o have "out = ?out" by simp
  with o e show ?thesis by simp
qed


section \<open>Properties of the adapters\<close>

text \<open>The facts that evaluate the JSON reader and the decoders on a given text.\<close>

lemmas json_eval = parse_json_def lex.simps HasPrefix_def byte_def is_numchar_def step_def
  begin_value_def complete_def maxNestingDepth_def escape_char_def valid_number_def is_digit_def

lemmas dec_eval = Unmarshal_def dec_struct_def find_field_def struct_field_def dec_string_def
  dec_int64_def dec_float64_def dec_ptr_string_def dec_map_string_def dec_slice_def dec_map_iface_def
  map_put_def ascii_upper_def

subsection \<open>Decoding: a field no member names keeps its value\<close>

lemma find_field_Some:
  "find_field flds k = Some u \<Longrightarrow> \<exists>n. (n, u) \<in> set flds \<and> foldName n = foldName k"
proof -
  assume a: "find_field flds k = Some u"
  show ?thesis
  proof (cases "find (\<lambda>f. fst f = k) flds")
    case None
    with a obtain f where "find (\<lambda>f. foldName (fst f) = foldName k) flds = Some f" "snd f = u"
      by (auto simp: find_field_def)
    then have "f \<in> set flds" "foldName (fst f) = foldName k"
      by (auto simp: find_Some_iff)
    with \<open>snd f = u\<close> show ?thesis by (cases f) auto
  next
    case (Some f)
    with a have "snd f = u" by (simp add: find_field_def)
    moreover from Some have "f \<in> set flds" "fst f = k" by (auto simp: find_Some_iff)
    ultimately show ?thesis by (cases f) auto
  qed
qed

lemma dec_members_invariant:
  assumes "\<And>k v u a b. (k, v) \<in> set kvs \<Longrightarrow> find_field flds k = Some u \<Longrightarrow> u v a = Some b \<Longrightarrow> P a \<Longrightarrow> P b"
      and "P s" and "dec_members flds kvs s = Some s'"
  shows "P s'"
  using assms
proof (induction kvs arbitrary: s)
  case Nil
  then show ?case by simp
next
  case (Cons kv kvs)
  obtain k v where kv: "kv = (k, v)" by (cases kv)
  have step: "\<And>k v u a b. (k, v) \<in> set kvs \<Longrightarrow> find_field flds k = Some u \<Longrightarrow> u v a = Some b \<Longrightarrow> P a \<Longrightarrow> P b"
    using Cons.prems(1) by (meson list.set_intros(2))
  show ?case
  proof (cases "find_field flds k")
    case None
    with Cons.prems(3) kv have "dec_members flds kvs s = Some s'" by simp
    from Cons.IH [OF step Cons.prems(2) this] show ?thesis .
  next
    case (Some u)
    with Cons.prems(3) kv obtain s1 where s1: "u v s = Some s1" "dec_members flds kvs s1 = Some s'"
      by (auto split: option.splits)
    have "P s1" using Cons.prems(1) [of k v u s s1] kv Some s1(1) Cons.prems(2) by simp
    from Cons.IH [OF step this s1(2)] show ?thesis .
  qed
qed



lemma CloudWatchAlarm_fields_frame:
  "list_all (\<lambda>f. fst f = ''AlarmName'' \<or> fst f = ''NewStateValue'' \<or>
       (\<forall>v a b. snd f v a = Some b \<longrightarrow> AlarmName b = AlarmName a \<and> NewStateValue b = NewStateValue a))
     (CloudWatchAlarm_fields L)"
  by (simp add: CloudWatchAlarm_fields_def struct_field_def; safe; simp)


lemma absent_fields_stay_empty:
  assumes absent: "\<forall>k \<in> fst ` set members.
                     foldName k \<noteq> foldName ''AlarmName'' \<and> foldName k \<noteq> foldName ''NewStateValue''"
      and fits: "dec_CloudWatchAlarm L (JObject members) (zero_CloudWatchAlarm L) = Some alarm"
  shows "AlarmName alarm = [] \<and> NewStateValue alarm = []"
proof -
  let ?P = "\<lambda>s :: 'a CloudWatchAlarm. AlarmName s = [] \<and> NewStateValue s = []"
  have z: "?P (zero_CloudWatchAlarm L)" by (simp add: zero_CloudWatchAlarm_def)
  from fits have d: "dec_members (CloudWatchAlarm_fields L) members (zero_CloudWatchAlarm L) = Some alarm"
    by (simp add: dec_CloudWatchAlarm_def dec_struct_def)
  show ?thesis
  proof (rule dec_members_invariant [where P = ?P, OF _ z d])
    fix k v u and a b :: "'a CloudWatchAlarm"
    assume kv: "(k, v) \<in> set members"
      and ff: "find_field (CloudWatchAlarm_fields L) k = Some u"
      and ub: "u v a = Some b" and pa: "?P a"
    from kv absent have nk: "foldName k \<noteq> foldName ''AlarmName''" "foldName k \<noteq> foldName ''NewStateValue''"
      by force+
    from find_field_Some [OF ff] obtain n where n: "(n, u) \<in> set (CloudWatchAlarm_fields L)"
      "foldName n = foldName k" by blast
    with nk have ne: "n \<noteq> ''AlarmName''" "n \<noteq> ''NewStateValue''" by auto
    from CloudWatchAlarm_fields_frame [of L] n(1)
    have "fst (n, u) = ''AlarmName'' \<or> fst (n, u) = ''NewStateValue'' \<or>
       (\<forall>v a b. snd (n, u) v a = Some b \<longrightarrow> AlarmName b = AlarmName a \<and> NewStateValue b = NewStateValue a)"
      unfolding list_all_iff by blast
    with ne have "\<forall>v a b. u v a = Some b \<longrightarrow> AlarmName b = AlarmName a \<and> NewStateValue b = NewStateValue a"
      by simp
    with ub pa show "?P b" by metis
  qed
qed

subsection \<open>The queue path and absent fields\<close>

text \<open>Adaptation of a queue message fails exactly when one of its two decodings fails.\<close>

lemma adapt_sqs_fails_iff:
  "(\<exists>err. AdaptSQSMessageWithRouting L body channels alarmChannels = Inl err) \<longleftrightarrow>
   (\<exists>err. Unmarshal dec_Envelope body zero_Envelope = Inl err) \<or>
   (\<exists>envelope err. Unmarshal dec_Envelope body zero_Envelope = Inr envelope \<and>
        Unmarshal (dec_CloudWatchAlarm L) (Message_env envelope) (zero_CloudWatchAlarm L) = Inl err)"
  by (auto simp: AdaptSQSMessageWithRouting_def Let_def split: sum.splits)

lemma Unmarshal_envelope_empty_message: \<open>Unmarshal dec_Envelope ''{"Message":"{}"}'' zero_Envelope = Inr \<lparr>Message_env = ''{}'', Subject = []\<rparr>\<close>
  by (simp add: json_eval dec_eval dec_Envelope_def Envelope_fields_def zero_Envelope_def)

lemma Unmarshal_alarm_empty_object: \<open>Unmarshal (dec_CloudWatchAlarm L) ''{}'' (zero_CloudWatchAlarm L) = Inr (zero_CloudWatchAlarm L)\<close>
  by (simp add: json_eval dec_eval dec_CloudWatchAlarm_def)

lemma determinePriority_zero: "determinePriority L (zero_CloudWatchAlarm L) = ''P2''"
  by (simp add: determinePriority_def Let_def zero_CloudWatchAlarm_def zero_AlarmTrigger_def ToLower_def is_ascii_def)

lemma AlarmName_zero: "AlarmName (zero_CloudWatchAlarm L) = []"
  by (simp add: zero_CloudWatchAlarm_def)

text \<open>
  C2, as the claim states it, fails: the adapter checks no field for presence.  The inner
  payload \<open>{}\<close> has neither \<open>AlarmName\<close> nor \<open>NewStateValue\<close>, yet adaptation
  succeeds, and the handler posts the message rendered from the empty alarm to the P2
  channel.
\<close>

theorem adapt_absent_fields_counterexample:
  \<open>\<forall>(L :: ('f, 't) stdlib) (PostMessage :: SlackPost \<Rightarrow> string option).
     AdaptSQSMessageWithRouting L ''{"Message":"{}"}''
        [''P2'' \<mapsto> ''#p2-infra-alerts'', ''default'' \<mapsto> ''#alerts''] Map.empty
       = Inr \<lparr>Message = formatSlackMessage L (zero_CloudWatchAlarm L), Priority = ''P2'',
              Channel = ''#p2-infra-alerts''\<rparr>
     \<and> fst (main_handler L PostMessage [''P2'' \<mapsto> ''#p2-infra-alerts'', ''default'' \<mapsto> ''#alerts'']
               Map.empty ''{"Message":"{}"}'')
       = [Notify_post \<lparr>channel = ''#p2-infra-alerts''\<rparr> (formatSlackMessage L (zero_CloudWatchAlarm L))]\<close>
  by (simp add: AdaptSQSMessageWithRouting_def main_handler_def Unmarshal_envelope_empty_message Unmarshal_alarm_empty_object determinePriority_zero AlarmName_zero index_config_def Let_def)

text \<open>
  C2, amended.  For every queue-sourced payload whose envelope decodes and whose inner
  message is a JSON object that fits the alarm structure, adaptation succeeds also when
  no member names \<open>AlarmName\<close> or \<open>NewStateValue\<close> (under the decoder's case folding):
  the alarm's name and new state are then the empty string, and the handler posts the
  message rendered from that alarm.  By \<open>adapt_sqs_fails_iff\<close> adaptation fails only
  when the envelope or the inner message does not decode.
\<close>

theorem adapt_absent_fields:
  assumes env: "Unmarshal dec_Envelope body zero_Envelope = Inr envelope"
      and inner: "parse_json (Message_env envelope) = Some (JObject members)"
      and absent: "\<forall>k \<in> fst ` set members.
                     foldName k \<noteq> foldName ''AlarmName'' \<and> foldName k \<noteq> foldName ''NewStateValue''"
      and fits: "dec_CloudWatchAlarm L (JObject members) (zero_CloudWatchAlarm L) = Some alarm"
  shows "AlarmName alarm = [] \<and> NewStateValue alarm = [] \<and>
         (\<exists>channel. AdaptSQSMessageWithRouting L body channels alarmChannels =
            Inr \<lparr>Message = formatSlackMessage L alarm, Priority = determinePriority L alarm, Channel = channel\<rparr>
          \<and> fst (main_handler L PostMessage channels alarmChannels body) =
              [Notify_post \<lparr>channel = channel\<rparr> (formatSlackMessage L alarm)])"
proof -
  from absent fits have e: "AlarmName alarm = [] \<and> NewStateValue alarm = []"
    by (rule absent_fields_stay_empty)
  from inner fits have u: "Unmarshal (dec_CloudWatchAlarm L) (Message_env envelope) (zero_CloudWatchAlarm L) = Inr alarm"
    by (simp add: Unmarshal_def)
  from env u e show ?thesis
    by (simp add: AdaptSQSMessageWithRouting_def main_handler_def Let_def)
qed

theorem adapt_absent_fields_witness:
  \<open>\<forall>(L :: ('f, 't) stdlib) (PostMessage :: SlackPost \<Rightarrow> string option).
     AlarmName (zero_CloudWatchAlarm L) = [] \<and> NewStateValue (zero_CloudWatchAlarm L) = [] \<and>
     (\<exists>channel. AdaptSQSMessageWithRouting L ''{"Message":"{}"}''
        [''P2'' \<mapsto> ''#p2-infra-alerts'', ''default'' \<mapsto> ''#alerts''] Map.empty
       = Inr \<lparr>Message = formatSlackMessage L (zero_CloudWatchAlarm L),
              Priority = determinePriority L (zero_CloudWatchAlarm L), Channel = channel\<rparr>
     \<and> fst (main_handler L PostMessage [''P2'' \<mapsto> ''#p2-infra-alerts'', ''default'' \<mapsto> ''#alerts'']
               Map.empty ''{"Message":"{}"}'')
       = [Notify_post \<lparr>channel = channel\<rparr> (formatSlackMessage L (zero_CloudWatchAlarm L))])\<close>
proof (intro allI)
  fix L :: "('f, 't) stdlib" and PostMessage :: "SlackPost \<Rightarrow> string option"
  have inner: "parse_json (Message_env \<lparr>Message_env = ''{}'', Subject = []\<rparr>) = Some (JObject [])"
    by (simp add: json_eval)
  have absent: "\<forall>k \<in> fst ` set ([] :: (string \<times> json) list).
                     foldName k \<noteq> foldName ''AlarmName'' \<and> foldName k \<noteq> foldName ''NewStateValue''"
    by simp
  have fits: "dec_CloudWatchAlarm L (JObject []) (zero_CloudWatchAlarm L) = Some (zero_CloudWatchAlarm L)"
    by (simp add: dec_CloudWatchAlarm_def dec_struct_def)
  from adapt_absent_fields [OF Unmarshal_envelope_empty_message inner absent fits]
  show \<open>AlarmName (zero_CloudWatchAlarm L) = [] \<and> NewStateValue (zero_CloudWatchAlarm L) = [] \<and>
     (\<exists>channel. AdaptSQSMessageWithRouting L ''{"Message":"{}"}''
        [''P2'' \<mapsto> ''#p2-infra-alerts'', ''default'' \<mapsto> ''#alerts''] Map.empty
       = Inr \<lparr>Message = formatSlackMessage L (zero_CloudWatchAlarm L),
              Priority = determinePriority L (zero_CloudWatchAlarm L), Channel = channel\<rparr>
     \<and> fst (main_handler L PostMessage [''P2'' \<mapsto> ''#p2-infra-alerts'', ''default'' \<mapsto> ''#alerts'']
               Map.empty ''{"Message":"{}"}'')
       = [Notify_post \<lparr>channel = channel\<rparr> (formatSlackMessage L (zero_CloudWatchAlarm L))])\<close>
    by blast
qed

subsection \<open>The webhook path: when adaptation fails\<close>

text \<open>
  C9, as the claim states it, fails: a body can parse as a JSON object and still be
  rejected.  In \<open>{"ruleId":"abc"}\<close> the member \<open>ruleId\<close> is a string where the legacy
  structure has an \<open>int64\<close>, so the second decoding returns a type error and adaptation
  fails (the first decoding yields no alert).
\<close>

theorem adapt_webhook_type_counterexample:
  \<open>\<forall>(L :: ('f, 't) stdlib) \<rho> \<rho>' channels alarmChannels.
     parse_json ''{"ruleId":"abc"}'' = Some (JObject [(''ruleId'', JString ''abc'')])
     \<and> AdaptGrafanaWebhook L \<rho> \<rho>' ''{"ruleId":"abc"}'' channels alarmChannels = Inl UnmarshalTypeError\<close>
  by (simp add: AdaptGrafanaWebhook_def json_eval dec_eval dec_GrafanaWebhook_def GrafanaWebhook_fields_def
        dec_AlertmanagerWebhook_def AlertmanagerWebhook_fields_def zero_AlertmanagerWebhook_def)

lemma Unmarshal_legacy_empty_object:
  "Unmarshal (dec_GrafanaWebhook L) ''{}'' zero_GrafanaWebhook = Inr zero_GrafanaWebhook"
  by (simp add: json_eval dec_eval dec_GrafanaWebhook_def)

lemma Unmarshal_modern_empty_object:
  "Unmarshal (dec_AlertmanagerWebhook L) ''{}'' zero_AlertmanagerWebhook = Inr zero_AlertmanagerWebhook"
  by (simp add: json_eval dec_eval dec_AlertmanagerWebhook_def)

lemma legacy_zero:
  "adaptLegacyWebhook L \<rho> zero_GrafanaWebhook [''P2'' \<mapsto> ''#p2-infra-alerts'', ''default'' \<mapsto> ''#alerts''] Map.empty
    = \<lparr>Message = formatGrafanaSlackMessage L \<rho> zero_GrafanaWebhook, Priority = ''P2'', Channel = ''#p2-infra-alerts''\<rparr>"
  by (simp add: adaptLegacyWebhook_def Let_def index_config_def determineGrafanaPriority_def
      determineGrafanaPriority_heuristic_def zero_GrafanaWebhook_def ToLower_def is_ascii_def)

text \<open>
  C9, amended.  Webhook-path adaptation fails only when the body does not decode into the
  legacy webhook structure, and then with that decoding's error: the body is not valid
  JSON, or a value in it does not fit the type of the field it names.  Every body that
  decodes into the legacy structure is adapted successfully, and by the legacy path when
  the Alertmanager decoding fails or yields no alert; this includes the empty object,
  which has no alert list, no \<open>ruleId\<close> and no \<open>state\<close>.
\<close>

theorem adapt_webhook_errors:
  "(AdaptGrafanaWebhook L \<rho> \<rho>' body channels alarmChannels = Inl err \<longrightarrow>
      Unmarshal (dec_GrafanaWebhook L) body zero_GrafanaWebhook = Inl err)
   \<and> (Unmarshal (dec_GrafanaWebhook L) body zero_GrafanaWebhook = Inr grafanaAlert \<longrightarrow>
        (\<exists>alertMsg. AdaptGrafanaWebhook L \<rho> \<rho>' body channels alarmChannels = Inr alertMsg))
   \<and> (Unmarshal (dec_GrafanaWebhook L) body zero_GrafanaWebhook = Inr grafanaAlert \<and>
        (\<forall>w. Unmarshal (dec_AlertmanagerWebhook L) body zero_AlertmanagerWebhook = Inr w \<longrightarrow> fst (Alerts w) = []) \<longrightarrow>
        AdaptGrafanaWebhook L \<rho> \<rho>' body channels alarmChannels
          = Inr (adaptLegacyWebhook L \<rho> grafanaAlert channels alarmChannels))"
  by (auto simp: AdaptGrafanaWebhook_def split: sum.splits option.splits if_splits)

theorem adapt_webhook_errors_witness:
  "\<forall>(L :: ('f, 't) stdlib) \<rho> \<rho>'.
     AdaptGrafanaWebhook L \<rho> \<rho>' ''{}'' [''P2'' \<mapsto> ''#p2-infra-alerts'', ''default'' \<mapsto> ''#alerts''] Map.empty
       = Inr \<lparr>Message = formatGrafanaSlackMessage L \<rho> zero_GrafanaWebhook, Priority = ''P2'',
              Channel = ''#p2-infra-alerts''\<rparr>"
proof (intro allI)
  fix L :: "('f, 't) stdlib" and \<rho> \<rho>'
  have modern: "\<forall>w. Unmarshal (dec_AlertmanagerWebhook L) ''{}'' zero_AlertmanagerWebhook = Inr w \<longrightarrow> fst (Alerts w) = []"
    using Unmarshal_modern_empty_object [of L] by (auto simp: zero_AlertmanagerWebhook_def)
  from adapt_webhook_errors [of L \<rho> \<rho>' "''{}''" _ _ _ zero_GrafanaWebhook]
    Unmarshal_legacy_empty_object [of L] modern
  have "AdaptGrafanaWebhook L \<rho> \<rho>' ''{}'' [''P2'' \<mapsto> ''#p2-infra-alerts'', ''default'' \<mapsto> ''#alerts''] Map.empty
          = Inr (adaptLegacyWebhook L \<rho> zero_GrafanaWebhook [''P2'' \<mapsto> ''#p2-infra-alerts'', ''default'' \<mapsto> ''#alerts''] Map.empty)"
    by blast
  then show "AdaptGrafanaWebhook L \<rho> \<rho>' ''{}'' [''P2'' \<mapsto> ''#p2-infra-alerts'', ''default'' \<mapsto> ''#alerts''] Map.empty
       = Inr \<lparr>Message = formatGrafanaSlackMessage L \<rho> zero_GrafanaWebhook, Priority = ''P2'',
              Channel = ''#p2-infra-alerts''\<rparr>"
    by (simp add: legacy_zero)
qed

subsection \<open>Routing: the explicit mapping\<close>

text \<open>
  C3, as the claim states it, fails for an entry whose channel is the empty string: the
  router tests the looked-up channel against the empty string, so such an entry counts as
  absent and the priority decides the channel.
\<close>

lemma ToUpper_firing: "ToUpper L ''firing'' = ''FIRING''"
  by (simp add: ToUpper_def is_ascii_def byte_def ascii_upper_def)

theorem explicit_mapping_empty_counterexample:
  "\<forall>(L :: ('f, 't) stdlib) \<rho>.
     [''disk-full'' \<mapsto> []] ''disk-full'' = Some []
     \<and> Channel (adaptAlertmanagerWebhook L \<rho>
          \<lparr>Alerts = ([[]], []), CommonLabels = [(''alertname'', ''disk-full'')], Status = ''firing'',
           Title_am = [], Message_am = []\<rparr>
          [''P2'' \<mapsto> ''#p2-infra-alerts'', ''default'' \<mapsto> ''#alerts''] [''disk-full'' \<mapsto> []])
       = ''#p2-infra-alerts''"
  by (simp add: adaptAlertmanagerWebhook_def am_priority_def am_channelTag_def Let_def index_string_def
      index_config_def ToUpper_firing first_alert_string_def entry_map_def alert_name_nodata_def
      alert_description_nodata_def)

text \<open>
  C3, amended.  For every alert name that has an entry with a non-empty channel in the
  explicit alert-to-channel mapping, the resolved channel is that entry's channel,
  whatever the priority tables hold and whatever priority is computed: for a cloud alarm
  of that name on the queue path, for a legacy webhook whose rule has that name, and for
  an Alertmanager webhook whose common labels carry that name.  An Alertmanager webhook
  that names its alert only in the labels of its first alert is outside this statement.
\<close>

theorem explicit_mapping_wins:
  assumes "alarmChannels name = Some c" and "c \<noteq> []"
  shows "(Unmarshal dec_Envelope body zero_Envelope = Inr envelope \<and>
          Unmarshal (dec_CloudWatchAlarm L) (Message_env envelope) (zero_CloudWatchAlarm L) = Inr alarm \<and>
          AlarmName alarm = name \<longrightarrow>
            AdaptSQSMessageWithRouting L body channels alarmChannels
              = Inr \<lparr>Message = formatSlackMessage L alarm, Priority = determinePriority L alarm, Channel = c\<rparr>)
       \<and> (RuleName grafanaAlert = name \<longrightarrow>
            Channel (adaptLegacyWebhook L \<rho> grafanaAlert channels alarmChannels) = c)
       \<and> (index_string (CommonLabels webhook) ''alertname'' = name \<longrightarrow>
            Channel (adaptAlertmanagerWebhook L \<rho>' webhook channels alarmChannels) = c)"
  using assms
  by (simp add: AdaptSQSMessageWithRouting_def adaptLegacyWebhook_def adaptAlertmanagerWebhook_def
      Let_def index_config_def)

theorem explicit_mapping_wins_witness:
  "\<forall>(L :: ('f, 't) stdlib) \<rho>.
     Channel (adaptAlertmanagerWebhook L \<rho>
          \<lparr>Alerts = ([[]], []), CommonLabels = [(''alertname'', ''disk-full'')], Status = ''firing'',
           Title_am = [], Message_am = []\<rparr>
          [''P2'' \<mapsto> ''#p2-infra-alerts'', ''default'' \<mapsto> ''#alerts''] [''disk-full'' \<mapsto> ''#storage-oncall''])
       = ''#storage-oncall''"
proof (intro allI)
  fix L :: "('f, 't) stdlib" and \<rho> :: "'f iface gomap \<Rightarrow> (string \<times> 'f iface) list"
  have a: "[''disk-full'' \<mapsto> ''#storage-oncall''] ''disk-full'' = Some ''#storage-oncall''" by simp
  have b: "''#storage-oncall'' \<noteq> []" by simp
  have n: "index_string (CommonLabels (\<lparr>Alerts = ([[]], []), CommonLabels = [(''alertname'', ''disk-full'')],
                Status = ''firing'', Title_am = [], Message_am = []\<rparr> :: 'f AlertmanagerWebhook)) ''alertname'' = ''disk-full''"
    by (simp add: index_string_def)
  from explicit_mapping_wins [where alarmChannels = "[''disk-full'' \<mapsto> ''#storage-oncall'']"
      and name = "''disk-full''" and c = "''#storage-oncall''" and L = L and \<rho>' = \<rho>
      and webhook = "\<lparr>Alerts = ([[]], []), CommonLabels = [(''alertname'', ''disk-full'')], Status = ''firing'',
           Title_am = [], Message_am = []\<rparr>", OF a b] n
  show "Channel (adaptAlertmanagerWebhook L \<rho>
          \<lparr>Alerts = ([[]], []), CommonLabels = [(''alertname'', ''disk-full'')], Status = ''firing'',
           Title_am = [], Message_am = []\<rparr>
          [''P2'' \<mapsto> ''#p2-infra-alerts'', ''default'' \<mapsto> ''#alerts''] [''disk-full'' \<mapsto> ''#storage-oncall''])
       = ''#storage-oncall''"
    by blast
qed

text \<open>
  The explicit lookup of \<open>adaptAlertmanagerWebhook\<close> reads the alert name from the common
  labels only, while the formatter of the same adapter, like its lookup of the channel tag,
  falls back to the labels of the first alert.  A webhook that names its alert only there
  is rendered under that name and routed by its priority, also when the name has an entry
  in the explicit mapping.
\<close>

lemma alertmanager_name_of_first_alert:
  "\<forall>(L :: ('f, 't) stdlib) \<rho>.
     am_alertname (\<lparr>Alerts = ([[(''labels'', IMap [(''alertname'', IString ''disk-full'')])]], []),
           CommonLabels = [], Status = ''firing'', Title_am = [], Message_am = []\<rparr> :: 'f AlertmanagerWebhook)
       = ''disk-full''
     \<and> Channel (adaptAlertmanagerWebhook L \<rho>
          \<lparr>Alerts = ([[(''labels'', IMap [(''alertname'', IString ''disk-full'')])]], []),
           CommonLabels = [], Status = ''firing'', Title_am = [], Message_am = []\<rparr>
          [''P2'' \<mapsto> ''#p2-infra-alerts'', ''default'' \<mapsto> ''#alerts''] [''disk-full'' \<mapsto> ''#storage-oncall''])
       = ''#p2-infra-alerts''"
  by (simp add: adaptAlertmanagerWebhook_def am_alertname_def am_priority_def am_channelTag_def Let_def
      index_string_def index_config_def first_alert_string_def entry_map_def entry_string_def
      ToUpper_firing alert_name_nodata_def alert_description_nodata_def nodata_indicator_def ToLower_def
      is_ascii_def byte_def ascii_lower_def HasPrefix_def)

subsection \<open>The no-data override\<close>

lemma nodata_priority_found:
  "alert \<in> set alerts \<Longrightarrow> alert_name_nodata L alert \<or> alert_description_nodata L alert \<Longrightarrow>
   nodata_priority L alerts = ''P1''"
  by (induction alerts) auto

lemma nodata_priority_cases: "nodata_priority L alerts = [] \<or> nodata_priority L alerts = ''P1''"
  by (induction alerts) auto

lemma Unmarshal_nodata_example:
  \<open>Unmarshal (dec_AlertmanagerWebhook L)
     ''{"status":"firing","commonLabels":{"channel":"P2"},"alerts":[{"labels":{"alertname":"DatasourceNoData"}}]}''
     zero_AlertmanagerWebhook
   = Inr \<lparr>Alerts = ([[(''labels'', IMap [(''alertname'', IString ''DatasourceNoData'')])]], []),
           CommonLabels = [(''channel'', ''P2'')], Status = ''firing'', Title_am = [], Message_am = []\<rparr>\<close>
  by (simp add: json_eval dec_eval dec_AlertmanagerWebhook_def AlertmanagerWebhook_fields_def
      zero_AlertmanagerWebhook_def)

text \<open>
  C4.  For every Alertmanager webhook whose status is \<open>firing\<close> in any letter case and
  in which some alert has a label \<open>alertname\<close> or an annotation \<open>description\<close> that is a
  string containing, case-insensitively, \<open>nodata\<close>, \<open>no data\<close> or \<open>data source\<close>, the
  computed priority is P1, whatever channel tag the webhook carries; and a body that
  decodes to such a webhook is adapted with priority P1.
\<close>

theorem nodata_forces_P1:
  assumes "ToUpper L (Status webhook) = ''FIRING''"
      and "alert \<in> set (fst (Alerts webhook))"
      and "(\<exists>labels s. entry_map alert ''labels'' = Some labels \<and> entry_string labels ''alertname'' = Some s
              \<and> nodata_indicator L s)
         \<or> (\<exists>annotations s. entry_map alert ''annotations'' = Some annotations
              \<and> entry_string annotations ''description'' = Some s \<and> nodata_indicator L s)"
  shows "Priority (adaptAlertmanagerWebhook L \<rho> webhook channels alarmChannels) = ''P1''
       \<and> (Unmarshal (dec_AlertmanagerWebhook L) body zero_AlertmanagerWebhook = Inr webhook \<longrightarrow>
            (\<exists>alertMsg. AdaptGrafanaWebhook L \<rho>0 \<rho> body channels alarmChannels = Inr alertMsg
                \<and> Priority alertMsg = ''P1''))"
proof -
  from assms(3) have "alert_name_nodata L alert \<or> alert_description_nodata L alert"
    by (auto simp: alert_name_nodata_def alert_description_nodata_def)
  with assms(2) have np: "nodata_priority L (fst (Alerts webhook)) = ''P1''"
    by (rule nodata_priority_found)
  from assms(2) have ne: "fst (Alerts webhook) \<noteq> []" by auto
  from assms(1) np ne have p: "am_priority L webhook = ''P1''"
    by (simp add: am_priority_def Let_def)
  then have 1: "Priority (adaptAlertmanagerWebhook L \<rho> webhook channels alarmChannels) = ''P1''"
    by (simp add: adaptAlertmanagerWebhook_def Let_def)
  with ne show ?thesis
    by (simp add: AdaptGrafanaWebhook_def)
qed


theorem nodata_forces_P1_witness:
  \<open>\<forall>(L :: ('f, 't) stdlib) \<rho>0 \<rho>.
     am_channelTag (\<lparr>Alerts = ([[(''labels'', IMap [(''alertname'', IString ''DatasourceNoData'')])]], []),
           CommonLabels = [(''channel'', ''P2'')], Status = ''firing'', Title_am = [], Message_am = []\<rparr>
           :: 'f AlertmanagerWebhook) = ''P2''
     \<and> (\<exists>alertMsg. AdaptGrafanaWebhook L \<rho>0 \<rho>
          ''{"status":"firing","commonLabels":{"channel":"P2"},"alerts":[{"labels":{"alertname":"DatasourceNoData"}}]}''
          [''P1'' \<mapsto> ''#p1-infra-alerts'', ''P2'' \<mapsto> ''#p2-infra-alerts'', ''default'' \<mapsto> ''#alerts''] Map.empty
            = Inr alertMsg \<and> Priority alertMsg = ''P1'')\<close>
proof (intro allI conjI)
  fix L :: "('f, 't) stdlib" and \<rho>0 :: range_order and \<rho> :: "'f iface gomap \<Rightarrow> (string \<times> 'f iface) list"
  let ?w = "\<lparr>Alerts = ([[(''labels'', IMap [(''alertname'', IString ''DatasourceNoData'')])]], []),
           CommonLabels = [(''channel'', ''P2'')], Status = ''firing'', Title_am = [], Message_am = []\<rparr>
           :: 'f AlertmanagerWebhook"
  let ?alert = "[(''labels'', IMap [(''alertname'', IString ''DatasourceNoData'')])] :: 'f iface gomap"
  show "am_channelTag ?w = ''P2''"
    by (simp add: am_channelTag_def index_string_def)
  have s: "ToUpper L (Status ?w) = ''FIRING''" by (simp add: ToUpper_firing)
  have m: "?alert \<in> set (fst (Alerts ?w))" by simp
  have i: "nodata_indicator L ''DatasourceNoData''"
    by (simp add: nodata_indicator_def ToLower_def is_ascii_def byte_def ascii_lower_def HasPrefix_def)
  have h: "(\<exists>labels s. entry_map ?alert ''labels'' = Some labels \<and> entry_string labels ''alertname'' = Some s
              \<and> nodata_indicator L s)
         \<or> (\<exists>annotations s. entry_map ?alert ''annotations'' = Some annotations
              \<and> entry_string annotations ''description'' = Some s \<and> nodata_indicator L s)"
    using i by (simp add: entry_map_def entry_string_def)
  from nodata_forces_P1 [OF s m h] Unmarshal_nodata_example [of L]
  show \<open>\<exists>alertMsg. AdaptGrafanaWebhook L \<rho>0 \<rho>
          ''{"status":"firing","commonLabels":{"channel":"P2"},"alerts":[{"labels":{"alertname":"DatasourceNoData"}}]}''
          [''P1'' \<mapsto> ''#p1-infra-alerts'', ''P2'' \<mapsto> ''#p2-infra-alerts'', ''default'' \<mapsto> ''#alerts''] Map.empty
            = Inr alertMsg \<and> Priority alertMsg = ''P1''\<close>
    by blast
qed

subsection \<open>Unrecognised channel tags\<close>

text \<open>
  C5, as the claim states it, fails on the legacy path: the switch of
  \<open>determineGrafanaPriority\<close> has no default, so the tag \<open>P3\<close> falls through to the
  keyword heuristic, which answers P0 for a rule named \<open>critical-db-latency\<close>.
\<close>

theorem unrecognized_tag_counterexample:
  "\<forall>L :: ('f, 't) stdlib.
     ToUpper L ''P3'' \<notin> {''P0'', ''P1'', ''P2''}
     \<and> determineGrafanaPriority L
          \<lparr>DashboardID = 0, EvalMatches = ([], []), ImageURL = [], Message_g = [], OrgID = 0,
           PanelID = 0, RuleID = 0, RuleName = ''critical-db-latency'', RuleURL = [], State = ''alerting'',
           Tags = [(''channel'', ''P3'')], Title_g = ''DB latency''\<rparr> = ''P0''"
  by (simp add: determineGrafanaPriority_def determineGrafanaPriority_heuristic_def Let_def
      ToUpper_def ToLower_def is_ascii_def byte_def ascii_upper_def ascii_lower_def HasPrefix_def)

lemma determinePriority_range: "determinePriority L alarm \<in> {''P0'', ''P1'', ''P2''}"
  by (simp add: determinePriority_def Let_def)

lemma heuristic_range: "determineGrafanaPriority_heuristic L alert \<in> {''P0'', ''P1'', ''P2''}"
  by (simp add: determineGrafanaPriority_heuristic_def Let_def)

lemma determineGrafanaPriority_range: "determineGrafanaPriority L alert \<in> {''P0'', ''P1'', ''P2''}"
  using heuristic_range [of L alert]
  by (simp add: determineGrafanaPriority_def split: option.splits)

lemma am_priority_range: "am_priority L webhook \<in> {''P0'', ''P1'', ''P2''}"
  using nodata_priority_cases [of L "fst (Alerts webhook)"]
  by (auto simp: am_priority_def Let_def)

text \<open>
  C5, amended.  No adapter produces a priority outside P0, P1, P2.  A channel tag that is
  none of P0, P1, P2 (case-insensitive) is treated like a missing tag: the legacy
  classifier then answers what its keyword heuristic answers, and the Alertmanager adapter
  answers P2 unless the no-data override makes it P1.
\<close>

theorem priority_of_unrecognized_tag:
  "(AdaptSQSMessageWithRouting L body channels alarmChannels = Inr alertMsg \<longrightarrow>
      Priority alertMsg \<in> {''P0'', ''P1'', ''P2''})
   \<and> (AdaptGrafanaWebhook L \<rho> \<rho>' body channels alarmChannels = Inr alertMsg \<longrightarrow>
      Priority alertMsg \<in> {''P0'', ''P1'', ''P2''})
   \<and> (map_of (Tags alert) ''channel'' = Some tag \<and> ToUpper L tag \<notin> {''P0'', ''P1'', ''P2''} \<longrightarrow>
      determineGrafanaPriority L alert = determineGrafanaPriority_heuristic L alert)
   \<and> (am_channelTag webhook = tag \<and> tag \<noteq> [] \<and> ToUpper L tag \<notin> {''P0'', ''P1'', ''P2''} \<longrightarrow>
      Priority (adaptAlertmanagerWebhook L \<rho>' webhook channels alarmChannels)
        = (if ToUpper L (Status webhook) = ''FIRING'' \<and> nodata_priority L (fst (Alerts webhook)) = ''P1''
           then ''P1'' else ''P2''))"
proof (intro conjI impI)
  assume "AdaptSQSMessageWithRouting L body channels alarmChannels = Inr alertMsg"
  then obtain alarm where "Priority alertMsg = determinePriority L alarm"
    by (auto simp: AdaptSQSMessageWithRouting_def Let_def split: sum.splits)
  with determinePriority_range [of L alarm] show "Priority alertMsg \<in> {''P0'', ''P1'', ''P2''}"
    by simp
next
  assume a: "AdaptGrafanaWebhook L \<rho> \<rho>' body channels alarmChannels = Inr alertMsg"
  then consider w where "alertMsg = adaptAlertmanagerWebhook L \<rho>' w channels alarmChannels"
    | g where "alertMsg = adaptLegacyWebhook L \<rho> g channels alarmChannels"
    by (auto simp: AdaptGrafanaWebhook_def split: sum.splits option.splits if_splits)
  then show "Priority alertMsg \<in> {''P0'', ''P1'', ''P2''}"
  proof cases
    case 1
    then have "Priority alertMsg = am_priority L w" by (simp add: adaptAlertmanagerWebhook_def Let_def)
    with am_priority_range show ?thesis by metis
  next
    case 2
    then have "Priority alertMsg = determineGrafanaPriority L g" by (simp add: adaptLegacyWebhook_def Let_def)
    with determineGrafanaPriority_range show ?thesis by metis
  qed
next
  assume "map_of (Tags alert) ''channel'' = Some tag \<and> ToUpper L tag \<notin> {''P0'', ''P1'', ''P2''}"
  then show "determineGrafanaPriority L alert = determineGrafanaPriority_heuristic L alert"
    by (simp add: determineGrafanaPriority_def)
next
  assume a: "am_channelTag webhook = tag \<and> tag \<noteq> [] \<and> ToUpper L tag \<notin> {''P0'', ''P1'', ''P2''}"
  have "Priority (adaptAlertmanagerWebhook L \<rho>' webhook channels alarmChannels) = am_priority L webhook"
    by (simp add: adaptAlertmanagerWebhook_def Let_def)
  moreover have "am_priority L webhook
        = (if ToUpper L (Status webhook) = ''FIRING'' \<and> nodata_priority L (fst (Alerts webhook)) = ''P1''
           then ''P1'' else ''P2'')"
    using a nodata_priority_cases [of L "fst (Alerts webhook)"]
    by (auto simp: am_priority_def Let_def)
  ultimately show "Priority (adaptAlertmanagerWebhook L \<rho>' webhook channels alarmChannels)
        = (if ToUpper L (Status webhook) = ''FIRING'' \<and> nodata_priority L (fst (Alerts webhook)) = ''P1''
           then ''P1'' else ''P2'')"
    by simp
qed


theorem priority_of_unrecognized_tag_witness:
  "\<forall>(L :: ('f, 't) stdlib) \<rho>.
     determineGrafanaPriority L
          \<lparr>DashboardID = 0, EvalMatches = ([], []), ImageURL = [], Message_g = [], OrgID = 0,
           PanelID = 0, RuleID = 0, RuleName = ''queue depth high'', RuleURL = [], State = ''alerting'',
           Tags = [(''channel'', ''urgent'')], Title_g = ''Queue depth''\<rparr> = ''P1''
     \<and> Priority (adaptAlertmanagerWebhook L \<rho>
          \<lparr>Alerts = ([[]], []), CommonLabels = [(''channel'', ''urgent'')], Status = ''resolved'',
           Title_am = [], Message_am = []\<rparr>
          [''P2'' \<mapsto> ''#p2-infra-alerts'', ''default'' \<mapsto> ''#alerts''] Map.empty) = ''P2''"
proof (intro allI)
  fix L :: "('f, 't) stdlib" and \<rho> :: "'f annotation_order"
  let ?a = "\<lparr>DashboardID = 0, EvalMatches = ([], []), ImageURL = [], Message_g = [], OrgID = 0,
           PanelID = 0, RuleID = 0, RuleName = ''queue depth high'', RuleURL = [], State = ''alerting'',
           Tags = [(''channel'', ''urgent'')], Title_g = ''Queue depth''\<rparr> :: 'f GrafanaWebhook"
  let ?w = "\<lparr>Alerts = ([[]], []), CommonLabels = [(''channel'', ''urgent'')], Status = ''resolved'',
           Title_am = [], Message_am = []\<rparr> :: 'f AlertmanagerWebhook"
  have u: "ToUpper L ''urgent'' \<notin> {''P0'', ''P1'', ''P2''}"
    by (simp add: ToUpper_def is_ascii_def byte_def ascii_upper_def)
  have t1: "map_of (Tags ?a) ''channel'' = Some ''urgent''" by simp
  have t2: "am_channelTag ?w = ''urgent''" by (simp add: am_channelTag_def index_string_def)
  have h: "determineGrafanaPriority_heuristic L ?a = ''P1''"
    by (simp add: determineGrafanaPriority_heuristic_def Let_def ToLower_def is_ascii_def byte_def
        ascii_lower_def HasPrefix_def)
  have r: "ToUpper L (Status ?w) \<noteq> ''FIRING''"
    by (simp add: ToUpper_def is_ascii_def byte_def ascii_upper_def)
  from priority_of_unrecognized_tag [where L = L and alert = ?a and tag = "''urgent''" and webhook = ?w
      and \<rho>' = \<rho> and channels = "[''P2'' \<mapsto> ''#p2-infra-alerts'', ''default'' \<mapsto> ''#alerts'']"
      and alarmChannels = Map.empty] u t1 t2 h r
  show "determineGrafanaPriority L ?a = ''P1''
     \<and> Priority (adaptAlertmanagerWebhook L \<rho> ?w
          [''P2'' \<mapsto> ''#p2-infra-alerts'', ''default'' \<mapsto> ''#alerts''] Map.empty) = ''P2''"
    by simp
qed

subsection \<open>Formatting and the order of map iteration\<close>

text \<open>
  A filter that lets through at most one entry of a map gives the same result on every
  enumeration of the map.
\<close>

lemma distinct_singleton_set: "distinct ys \<Longrightarrow> set ys = {x} \<Longrightarrow> ys = [x]"
proof (cases ys)
  case Nil
  assume "set ys = {x}"
  with Nil show ?thesis by simp
next
  case (Cons y zs)
  assume d: "distinct ys" and s: "set ys = {x}"
  from s Cons have y: "y = x" by auto
  from d Cons have "y \<notin> set zs" by simp
  moreover from s Cons have "set zs \<subseteq> {x}" by auto
  ultimately have "zs = []" using y by (cases zs) auto
  with Cons y show ?thesis by simp
qed

lemma filter_enumerates:
  assumes "distinct (map fst m)" and "enumerates xs m" and "length (filter P m) \<le> 1"
  shows "filter P xs = filter P m"
proof -
  from assms(1) have dm: "distinct m" by (simp add: distinct_map)
  from assms(2) have dx: "distinct xs" and sx: "set xs = set m" by (auto simp: enumerates_def)
  have same: "set (filter P xs) = set (filter P m)" using sx by auto
  show ?thesis
  proof (cases "filter P m")
    case Nil
    with same have "set (filter P xs) = {}" by simp
    then have "filter P xs = []" by (simp only: set_empty)
    with Nil show ?thesis by simp
  next
    case (Cons x rest)
    with assms(3) have "rest = []" by simp
    with Cons have fm: "filter P m = [x]" by simp
    with same have "set (filter P xs) = {x}" by simp
    moreover from dx have "distinct (filter P xs)" by simp
    ultimately have "filter P xs = [x]" by (rule distinct_singleton_set [rotated])
    with fm show ?thesis by simp
  qed
qed

lemma format_matches_order:
  assumes "valid_order \<rho>"
      and "\<forall>m \<in> set ms. distinct (map fst (Tags_m m)) \<and> length (filter match_tag_shown (Tags_m m)) \<le> 1"
  shows "format_matches L \<rho> i ms = format_matches L (\<lambda>i m. m) i ms"
  using assms(2)
proof (induction ms arbitrary: i)
  case Nil
  then show ?case by simp
next
  case (Cons m ms)
  from Cons.prems have d: "distinct (map fst (Tags_m m))" and l: "length (filter match_tag_shown (Tags_m m)) \<le> 1"
    by auto
  from assms(1) d have "enumerates (\<rho> i (Tags_m m)) (Tags_m m)" by (simp add: valid_order_def)
  from filter_enumerates [OF d this l]
  have f: "filter match_tag_shown (\<rho> i (Tags_m m)) = filter match_tag_shown (Tags_m m)" .
  from Cons.prems have "\<forall>m \<in> set ms. distinct (map fst (Tags_m m)) \<and> length (filter match_tag_shown (Tags_m m)) \<le> 1"
    by simp
  from Cons.IH [OF this] f show ?case by (simp add: Let_def)
qed

lemma formatGrafana_order:
  assumes "valid_order \<rho>"
      and "distinct (map fst (Tags alert))" and "length (filter alert_tag_shown (Tags alert)) \<le> 1"
      and "\<forall>m \<in> set (fst (EvalMatches alert)).
             distinct (map fst (Tags_m m)) \<and> length (filter match_tag_shown (Tags_m m)) \<le> 1"
  shows "formatGrafanaSlackMessage L \<rho> alert = formatGrafanaSlackMessage L (\<lambda>i m. m) alert"
proof -
  from assms(1,2) have "enumerates (\<rho> (length (fst (EvalMatches alert))) (Tags alert)) (Tags alert)"
    by (simp add: valid_order_def)
  from filter_enumerates [OF assms(2) this assms(3)]
  have f: "filter alert_tag_shown (\<rho> (length (fst (EvalMatches alert))) (Tags alert))
           = filter alert_tag_shown (Tags alert)" .
  from format_matches_order [OF assms(1,4)]
  have g: "format_matches L \<rho> 0 (fst (EvalMatches alert)) = format_matches L (\<lambda>i m. m) 0 (fst (EvalMatches alert))" .
  show ?thesis by (simp add: formatGrafanaSlackMessage_def f g)
qed

lemma formatAlertmanager_order:
  assumes "valid_annotation_order \<rho>"
      and "\<forall>alert rest annotations. fst (Alerts webhook) = alert # rest \<and> entry_map alert ''annotations'' = Some annotations
             \<longrightarrow> distinct (map fst annotations) \<and> length (filter annotation_shown annotations) \<le> 1"
  shows "formatAlertmanagerSlackMessage L \<rho> webhook = formatAlertmanagerSlackMessage L (\<lambda>m. m) webhook"
proof -
  have "formatEnhancedAlertMessage L \<rho> webhook = formatEnhancedAlertMessage L (\<lambda>m. m) webhook"
  proof (cases "fst (Alerts webhook)")
    case Nil
    then show ?thesis by (simp add: formatEnhancedAlertMessage_def)
  next
    case (Cons alert rest)
    show ?thesis
    proof (cases "entry_map alert ''annotations''")
      case None
      with Cons show ?thesis by (simp add: formatEnhancedAlertMessage_def)
    next
      case (Some annotations)
      with Cons assms(2) have d: "distinct (map fst annotations)"
        and l: "length (filter annotation_shown annotations) \<le> 1" by blast+
      from assms(1) d have "enumerates (\<rho> annotations) annotations" by (simp add: valid_annotation_order_def)
      from filter_enumerates [OF d this l]
      have "filter annotation_shown (\<rho> annotations) = filter annotation_shown annotations" .
      with Cons Some show ?thesis by (simp add: formatEnhancedAlertMessage_def)
    qed
  qed
  then show ?thesis by (simp add: formatAlertmanagerSlackMessage_def)
qed

lemma valid_order_id: "valid_order (\<lambda>i m. m)"
  by (simp add: valid_order_def enumerates_def distinct_map)

lemma valid_order_rev: "valid_order (\<lambda>i m. rev m)"
  by (simp add: valid_order_def enumerates_def distinct_map)

lemma valid_annotation_order_id: "valid_annotation_order (\<lambda>m. m)"
  by (simp add: valid_annotation_order_def enumerates_def distinct_map)

lemma valid_annotation_order_rev: "valid_annotation_order rev"
  by (simp add: valid_annotation_order_def enumerates_def distinct_map)

text \<open>
  C6, as the claim states it, fails: the legacy formatter ranges over the tag map, and Go
  leaves the order of a \<open>range\<close> over a map to the runtime, which varies it from one loop
  to the next.  The same alert with the two tags \<open>service\<close> and \<open>team\<close> is rendered
  with its label lines in either order, two different texts.
\<close>

theorem formatting_order_counterexample:
  "\<forall>L :: ('f, 't) stdlib.
     valid_order (\<lambda>i m. m) \<and> valid_order (\<lambda>i m. rev m)
     \<and> formatGrafanaSlackMessage L (\<lambda>i m. m)
          \<lparr>DashboardID = 0, EvalMatches = ([], []), ImageURL = [], Message_g = [], OrgID = 0,
           PanelID = 0, RuleID = 0, RuleName = [], RuleURL = [], State = ''alerting'',
           Tags = [(''service'', ''db''), (''team'', ''core'')], Title_g = ''DB latency''\<rparr>
        = emoji_siren @ '' *Grafana Alert: DB latency*'' @ NL
          @ bullet @ '' *State:* '' @ bq @ emoji_red @ '' ALERTING'' @ bq @ NL
          @ bullet @ '' *Labels:*'' @ NL
          @ ''   '' @ arrow @ '' '' @ bq @ ''service'' @ bq @ '': db'' @ NL
          @ ''   '' @ arrow @ '' '' @ bq @ ''team'' @ bq @ '': core''
     \<and> formatGrafanaSlackMessage L (\<lambda>i m. rev m)
          \<lparr>DashboardID = 0, EvalMatches = ([], []), ImageURL = [], Message_g = [], OrgID = 0,
           PanelID = 0, RuleID = 0, RuleName = [], RuleURL = [], State = ''alerting'',
           Tags = [(''service'', ''db''), (''team'', ''core'')], Title_g = ''DB latency''\<rparr>
        = emoji_siren @ '' *Grafana Alert: DB latency*'' @ NL
          @ bullet @ '' *State:* '' @ bq @ emoji_red @ '' ALERTING'' @ bq @ NL
          @ bullet @ '' *Labels:*'' @ NL
          @ ''   '' @ arrow @ '' '' @ bq @ ''team'' @ bq @ '': core'' @ NL
          @ ''   '' @ arrow @ '' '' @ bq @ ''service'' @ bq @ '': db''
     \<and> formatGrafanaSlackMessage L (\<lambda>i m. m)
          \<lparr>DashboardID = 0, EvalMatches = ([], []), ImageURL = [], Message_g = [], OrgID = 0,
           PanelID = 0, RuleID = 0, RuleName = [], RuleURL = [], State = ''alerting'',
           Tags = [(''service'', ''db''), (''team'', ''core'')], Title_g = ''DB latency''\<rparr>
        \<noteq> formatGrafanaSlackMessage L (\<lambda>i m. rev m)
          \<lparr>DashboardID = 0, EvalMatches = ([], []), ImageURL = [], Message_g = [], OrgID = 0,
           PanelID = 0, RuleID = 0, RuleName = [], RuleURL = [], State = ''alerting'',
           Tags = [(''service'', ''db''), (''team'', ''core'')], Title_g = ''DB latency''\<rparr>"
  by (simp add: valid_order_id valid_order_rev formatGrafanaSlackMessage_def grafana_emoji_def
      grafana_stateColor_def alert_tag_shown_def ToUpper_def is_ascii_def byte_def ascii_upper_def
      NL_def bullet_def arrow_def bq_def emoji_siren_def emoji_red_def)

text \<open>
  C6, amended.  For every alert in which each map the formatter ranges over holds at most
  one entry that is rendered (the alert's tags other than \<open>channel\<close> with a non-empty
  value, each evaluation match's tags other than \<open>__name__\<close>, \<open>job\<close>, \<open>instance\<close>, and
  the first alert's non-empty string annotations other than \<open>description\<close> and
  \<open>summary\<close>), rendering it twice yields byte-identical text, whatever orders the
  runtime picks.  The cloud-alarm formatter \<open>formatSlackMessage\<close> ranges over no map and
  is a function of the alarm alone.
\<close>

theorem formatting_order_independent:
  assumes "valid_order \<rho>1" and "valid_order \<rho>2"
      and "valid_annotation_order \<sigma>1" and "valid_annotation_order \<sigma>2"
      and "distinct (map fst (Tags alert))" and "length (filter alert_tag_shown (Tags alert)) \<le> 1"
      and "\<forall>m \<in> set (fst (EvalMatches alert)).
             distinct (map fst (Tags_m m)) \<and> length (filter match_tag_shown (Tags_m m)) \<le> 1"
      and "\<forall>a rest annotations. fst (Alerts webhook) = a # rest \<and> entry_map a ''annotations'' = Some annotations
             \<longrightarrow> distinct (map fst annotations) \<and> length (filter annotation_shown annotations) \<le> 1"
  shows "formatGrafanaSlackMessage L \<rho>1 alert = formatGrafanaSlackMessage L \<rho>2 alert
       \<and> formatAlertmanagerSlackMessage L \<sigma>1 webhook = formatAlertmanagerSlackMessage L \<sigma>2 webhook"
  using formatGrafana_order [OF assms(1) assms(5,6,7), of L] formatGrafana_order [OF assms(2) assms(5,6,7), of L]
    formatAlertmanager_order [OF assms(3) assms(8), of L] formatAlertmanager_order [OF assms(4) assms(8), of L]
  by simp


theorem formatting_order_independent_witness:
  "\<forall>L :: ('f, 't) stdlib.
     formatGrafanaSlackMessage L (\<lambda>i m. m)
          \<lparr>DashboardID = 0, EvalMatches = ([], []), ImageURL = [], Message_g = [], OrgID = 0,
           PanelID = 0, RuleID = 0, RuleName = [], RuleURL = [], State = ''alerting'',
           Tags = [(''channel'', ''P1''), (''service'', ''db'')], Title_g = ''DB latency''\<rparr>
       = formatGrafanaSlackMessage L (\<lambda>i m. rev m)
          \<lparr>DashboardID = 0, EvalMatches = ([], []), ImageURL = [], Message_g = [], OrgID = 0,
           PanelID = 0, RuleID = 0, RuleName = [], RuleURL = [], State = ''alerting'',
           Tags = [(''channel'', ''P1''), (''service'', ''db'')], Title_g = ''DB latency''\<rparr>
     \<and> formatAlertmanagerSlackMessage L (\<lambda>m. m)
          \<lparr>Alerts = ([[(''annotations'', IMap [(''summary'', IString ''disk almost full''),
                                                (''runbook_url'', IString ''https://runbooks/disk'')])]], []),
           CommonLabels = [(''alertname'', ''disk-full'')], Status = ''firing'', Title_am = [], Message_am = []\<rparr>
       = formatAlertmanagerSlackMessage L rev
          \<lparr>Alerts = ([[(''annotations'', IMap [(''summary'', IString ''disk almost full''),
                                                (''runbook_url'', IString ''https://runbooks/disk'')])]], []),
           CommonLabels = [(''alertname'', ''disk-full'')], Status = ''firing'', Title_am = [], Message_am = []\<rparr>"
proof (intro allI)
  fix L :: "('f, 't) stdlib"
  let ?a = "\<lparr>DashboardID = 0, EvalMatches = ([], []), ImageURL = [], Message_g = [], OrgID = 0,
           PanelID = 0, RuleID = 0, RuleName = [], RuleURL = [], State = ''alerting'',
           Tags = [(''channel'', ''P1''), (''service'', ''db'')], Title_g = ''DB latency''\<rparr> :: 'f GrafanaWebhook"
  let ?w = "\<lparr>Alerts = ([[(''annotations'', IMap [(''summary'', IString ''disk almost full''),
                                                (''runbook_url'', IString ''https://runbooks/disk'')])]], []),
           CommonLabels = [(''alertname'', ''disk-full'')], Status = ''firing'', Title_am = [], Message_am = []\<rparr>
           :: 'f AlertmanagerWebhook"
  have h5: "distinct (map fst (Tags ?a))" by simp
  have h6: "length (filter alert_tag_shown (Tags ?a)) \<le> 1" by (simp add: alert_tag_shown_def)
  have h7: "\<forall>m \<in> set (fst (EvalMatches ?a)).
             distinct (map fst (Tags_m m)) \<and> length (filter match_tag_shown (Tags_m m)) \<le> 1" by simp
  have h8: "\<forall>a rest annotations. fst (Alerts ?w) = a # rest \<and> entry_map a ''annotations'' = Some annotations
             \<longrightarrow> distinct (map fst annotations) \<and> length (filter annotation_shown annotations) \<le> 1"
    by (auto simp: entry_map_def annotation_shown_def)
  from formatting_order_independent [OF valid_order_id valid_order_rev valid_annotation_order_id
      valid_annotation_order_rev h5 h6 h7 h8, of L]
  show "formatGrafanaSlackMessage L (\<lambda>i m. m) ?a = formatGrafanaSlackMessage L (\<lambda>i m. rev m) ?a
     \<and> formatAlertmanagerSlackMessage L (\<lambda>m. m) ?w = formatAlertmanagerSlackMessage L rev ?w" .
qed


section \<open>Properties of the correlation id\<close>

text \<open>
  A text has at most as many characters as bytes, and every state emoji of the
  cloud-alarm formatter takes more bytes than characters; so does every message it renders,
  since the message starts with that emoji.
\<close>

lemma character_length_append: "character_length (a @ b) = character_length a + character_length b"
  by (simp add: character_length_def)

lemma character_length_le: "character_length s \<le> length s"
  by (simp add: character_length_def)

lemma alarm_emoji_wide: "character_length (alarm_emoji state) < length (alarm_emoji state)"
  by (simp add: alarm_emoji_def character_length_def byte_def emoji_siren_def emoji_check_def
        emoji_warning_def emoji_chart_def)

lemma formatSlackMessage_wide:
  "character_length (formatSlackMessage L alarm) < length (formatSlackMessage L alarm)"
proof -
  obtain rest where m: "formatSlackMessage L alarm = alarm_emoji (NewStateValue alarm) @ rest"
    by (simp add: formatSlackMessage_def)
  have "character_length rest \<le> length rest" by (rule character_length_le)
  with alarm_emoji_wide [of "NewStateValue alarm"] show ?thesis
    unfolding m by (simp add: character_length_append)
qed

text \<open>
  C10, as the claim states it, fails: the number in the correlation id is \<open>len(message)\<close>,
  the length of the text in bytes, not in characters.  The text of the siren emoji followed
  by \<open> disk-full\<close> has 11 characters and 14 bytes, and its buttons carry \<open>alert_14\<close>.
  For the queue payload \<open>{"Message":"{}"}\<close> the handler posts a notification whose
  buttons carry the byte length of the rendered message, which differs from its character
  length whatever the library functions return.
\<close>

theorem notify_character_length_counterexample:
  \<open>map ButtonValue (Elements (Notify_post \<lparr>channel = ''#p0''\<rparr> (emoji_siren @ '' disk-full'')))
       = [''alert_14'', ''alert_14'']
   \<and> character_length (emoji_siren @ '' disk-full'') = 11
   \<and> (\<forall>(L :: ('f, 't) stdlib) (PostMessage :: SlackPost \<Rightarrow> string option).
        map (\<lambda>post. map ButtonValue (Elements post))
          (fst (main_handler L PostMessage [''P2'' \<mapsto> ''#p2-infra-alerts'', ''default'' \<mapsto> ''#alerts'']
                  Map.empty ''{"Message":"{}"}''))
         = [[''alert_'' @ decimal (length (formatSlackMessage L (zero_CloudWatchAlarm L))),
             ''alert_'' @ decimal (length (formatSlackMessage L (zero_CloudWatchAlarm L)))]]
        \<and> ''alert_'' @ decimal (length (formatSlackMessage L (zero_CloudWatchAlarm L)))
            \<noteq> ''alert_'' @ decimal (character_length (formatSlackMessage L (zero_CloudWatchAlarm L))))\<close>
proof (intro conjI allI)
  show \<open>map ButtonValue (Elements (Notify_post \<lparr>channel = ''#p0''\<rparr> (emoji_siren @ '' disk-full'')))
       = [''alert_14'', ''alert_14'']\<close>
    by (simp add: Notify_post_def NotifyWithButtons_post_def Sprintf_d_def Let_def emoji_siren_def decimal.simps)
  show "character_length (emoji_siren @ '' disk-full'') = 11"
    by (simp add: character_length_def byte_def emoji_siren_def)
next
  fix L :: "('f, 't) stdlib" and PostMessage :: "SlackPost \<Rightarrow> string option"
  show \<open>map (\<lambda>post. map ButtonValue (Elements post))
          (fst (main_handler L PostMessage [''P2'' \<mapsto> ''#p2-infra-alerts'', ''default'' \<mapsto> ''#alerts'']
                  Map.empty ''{"Message":"{}"}''))
         = [[''alert_'' @ decimal (length (formatSlackMessage L (zero_CloudWatchAlarm L))),
             ''alert_'' @ decimal (length (formatSlackMessage L (zero_CloudWatchAlarm L)))]]\<close>
    by (simp add: AdaptSQSMessageWithRouting_def main_handler_def Unmarshal_envelope_empty_message
          Unmarshal_alarm_empty_object determinePriority_zero AlarmName_zero index_config_def Let_def
          Notify_post_def NotifyWithButtons_post_def Sprintf_d_def)
  show \<open>''alert_'' @ decimal (length (formatSlackMessage L (zero_CloudWatchAlarm L)))
            \<noteq> ''alert_'' @ decimal (character_length (formatSlackMessage L (zero_CloudWatchAlarm L)))\<close>
    using formatSlackMessage_wide [of L "zero_CloudWatchAlarm L"] decimal_inj by fastforce
qed

text \<open>
  C10, amended.  A notification sent through \<open>Notify\<close>, which passes no correlation id,
  carries on both of its buttons the value \<open>alert_\<close> followed by the decimal length of
  the message text in bytes (Go's \<open>len\<close>).  The value depends on nothing but that length:
  any other message of the same byte length, on any channel, gets the same value.  Every
  queue-sourced notification is sent this way: when the adapter succeeds the handler posts
  one message, whose two buttons carry \<open>alert_\<close> and the byte length of the rendered
  message, and that length is strictly greater than the number of characters of the message.
\<close>

theorem notify_correlation_id:
  "map ButtonValue (Elements (Notify_post s message))
     = [''alert_'' @ decimal (length message), ''alert_'' @ decimal (length message)]
   \<and> (\<forall>s' message'. length message' = length message \<longrightarrow>
          map ButtonValue (Elements (Notify_post s' message')) = map ButtonValue (Elements (Notify_post s message)))
   \<and> (\<forall>alertMsg. AdaptSQSMessageWithRouting L body channels alarmChannels = Inr alertMsg \<longrightarrow>
          map (\<lambda>post. map ButtonValue (Elements post)) (fst (main_handler L PostMessage channels alarmChannels body))
            = [[''alert_'' @ decimal (length (Message alertMsg)), ''alert_'' @ decimal (length (Message alertMsg))]]
          \<and> character_length (Message alertMsg) < length (Message alertMsg))"
proof (intro conjI allI impI)
  show "map ButtonValue (Elements (Notify_post s message))
     = [''alert_'' @ decimal (length message), ''alert_'' @ decimal (length message)]"
    by (simp add: Notify_post_def NotifyWithButtons_post_def Sprintf_d_def Let_def)
next
  fix s' :: SlackNotifier and message' :: string
  assume "length message' = length message"
  then show "map ButtonValue (Elements (Notify_post s' message')) = map ButtonValue (Elements (Notify_post s message))"
    by (simp add: Notify_post_def NotifyWithButtons_post_def Sprintf_d_def Let_def)
next
  fix alertMsg
  assume a: "AdaptSQSMessageWithRouting L body channels alarmChannels = Inr alertMsg"
  then show "map (\<lambda>post. map ButtonValue (Elements post)) (fst (main_handler L PostMessage channels alarmChannels body))
            = [[''alert_'' @ decimal (length (Message alertMsg)), ''alert_'' @ decimal (length (Message alertMsg))]]"
    by (simp add: main_handler_def Notify_post_def NotifyWithButtons_post_def Sprintf_d_def Let_def)
  from a obtain alarm where "Message alertMsg = formatSlackMessage L alarm"
    by (auto simp add: AdaptSQSMessageWithRouting_def Let_def split: sum.splits)
  then show "character_length (Message alertMsg) < length (Message alertMsg)"
    by (simp add: formatSlackMessage_wide)
qed

theorem notify_correlation_id_witness:
  \<open>\<forall>(L :: ('f, 't) stdlib) (PostMessage :: SlackPost \<Rightarrow> string option).
     ''disk-full alarm'' \<noteq> ''cpu-high: alarm''
   \<and> map ButtonValue (Elements (Notify_post \<lparr>channel = ''#p0''\<rparr> ''disk-full alarm'')) = [''alert_15'', ''alert_15'']
   \<and> map ButtonValue (Elements (Notify_post \<lparr>channel = ''#p2''\<rparr> ''cpu-high: alarm'')) = [''alert_15'', ''alert_15'']
   \<and> map (\<lambda>post. map ButtonValue (Elements post))
        (fst (main_handler L PostMessage [''P2'' \<mapsto> ''#p2-infra-alerts'', ''default'' \<mapsto> ''#alerts'']
                Map.empty ''{"Message":"{}"}''))
       = [[''alert_'' @ decimal (length (formatSlackMessage L (zero_CloudWatchAlarm L))),
           ''alert_'' @ decimal (length (formatSlackMessage L (zero_CloudWatchAlarm L)))]]
   \<and> character_length (formatSlackMessage L (zero_CloudWatchAlarm L))
       < length (formatSlackMessage L (zero_CloudWatchAlarm L))\<close>
proof (intro allI)
  fix L :: "('f, 't) stdlib" and PostMessage :: "SlackPost \<Rightarrow> string option"
  have a: \<open>AdaptSQSMessageWithRouting L ''{"Message":"{}"}''
        [''P2'' \<mapsto> ''#p2-infra-alerts'', ''default'' \<mapsto> ''#alerts''] Map.empty
       = Inr \<lparr>Message = formatSlackMessage L (zero_CloudWatchAlarm L), Priority = ''P2'',
              Channel = ''#p2-infra-alerts''\<rparr>\<close>
    by (simp add: AdaptSQSMessageWithRouting_def Unmarshal_envelope_empty_message
          Unmarshal_alarm_empty_object determinePriority_zero AlarmName_zero index_config_def Let_def)
  from notify_correlation_id [where s = "\<lparr>channel = ''#p0''\<rparr>" and message = "''disk-full alarm''"
      and L = L and PostMessage = PostMessage
      and channels = "[''P2'' \<mapsto> ''#p2-infra-alerts'', ''default'' \<mapsto> ''#alerts'']"
      and alarmChannels = Map.empty and body = \<open>''{"Message":"{}"}''\<close>] a
  show \<open>''disk-full alarm'' \<noteq> ''cpu-high: alarm''
   \<and> map ButtonValue (Elements (Notify_post \<lparr>channel = ''#p0''\<rparr> ''disk-full alarm'')) = [''alert_15'', ''alert_15'']
   \<and> map ButtonValue (Elements (Notify_post \<lparr>channel = ''#p2''\<rparr> ''cpu-high: alarm'')) = [''alert_15'', ''alert_15'']
   \<and> map (\<lambda>post. map ButtonValue (Elements post))
        (fst (main_handler L PostMessage [''P2'' \<mapsto> ''#p2-infra-alerts'', ''default'' \<mapsto> ''#alerts'']
                Map.empty ''{"Message":"{}"}''))
       = [[''alert_'' @ decimal (length (formatSlackMessage L (zero_CloudWatchAlarm L))),
           ''alert_'' @ decimal (length (formatSlackMessage L (zero_CloudWatchAlarm L)))]]
   \<and> character_length (formatSlackMessage L (zero_CloudWatchAlarm L))
       < length (formatSlackMessage L (zero_CloudWatchAlarm L))\<close>
    by (simp add: decimal.simps)
qed

end
